theory Spec2Isabelle
  imports Complex_Main "HOL-Library.AList"
begin

section \<open>JavaScript values\<close>

text \<open>
  The values that flow through the orchestration core: what \<open>JSON.parse\<close> returns, what
  capability providers resolve with, and \<open>undefined\<close> for an absent property. Numbers are
  the integral ones; an object is the list of its own properties, each key once.
\<close>

datatype json =
    JUndefined
  | JNull
  | JBool bool
  | JNum int
  | JStr string
  | JArr "json list"
  | JObj "(string \<times> json) list"

text \<open>
  What can be thrown, or be the reason of a rejected promise: an \<open>Error\<close> object of one
  of three kinds, with its message, or any other value.
\<close>

datatype js_error = Error string | TypeError string | SyntaxError string | Thrown json

fun truthy :: "json \<Rightarrow> bool" where
  "truthy JUndefined = False"
| "truthy JNull = False"
| "truthy (JBool b) = b"
| "truthy (JNum n) = (n \<noteq> 0)"
| "truthy (JStr s) = (s \<noteq> [])"
| "truthy (JArr xs) = True"
| "truthy (JObj kvs) = True"

text \<open>The operator \<open>a || b\<close>.\<close>

definition js_or :: "json \<Rightarrow> json \<Rightarrow> json" where
  "js_or a b = (if truthy a then a else b)"

fun nullish :: "json \<Rightarrow> bool" where
  "nullish JUndefined = True"
| "nullish JNull = True"
| "nullish v = False"

fun typeName :: "json \<Rightarrow> string" where
  "typeName JNull = ''null''"
| "typeName v = ''undefined''"

text \<open>
  Property read \<open>v.k\<close>, for the property names this program reads (none of them is an own
  or inherited property of a number, string, boolean or array): a \<open>TypeError\<close> on
  \<open>null\<close> and \<open>undefined\<close>, the own property of an object, \<open>undefined\<close> otherwise.
\<close>

fun readProp :: "json \<Rightarrow> string \<Rightarrow> json" where
  "readProp (JObj kvs) k = (case map_of kvs k of Some v \<Rightarrow> v | None \<Rightarrow> JUndefined)"
| "readProp v k = JUndefined"

definition get_prop :: "json \<Rightarrow> string \<Rightarrow> js_error + json" where
  "get_prop v k =
     (if nullish v
      then Inl (TypeError (''Cannot read properties of '' @ typeName v @ '' (reading '' @ [CHR 0x27] @ k @ [CHR 0x27] @ '')''))
      else Inr (readProp v k))"

fun isArray :: "json \<Rightarrow> bool" where
  "isArray (JArr xs) = True"
| "isArray v = False"

fun elements :: "json \<Rightarrow> json list" where
  "elements (JArr xs) = xs"
| "elements v = []"

text \<open>
  \<open>error.message\<close> in a \<open>catch\<close> block: the text of an \<open>Error\<close> object, a property read
  on any other caught value, which throws on \<open>null\<close> and \<open>undefined\<close>.
\<close>

fun errorMessage :: "js_error \<Rightarrow> js_error + json" where
  "errorMessage (Error m) = Inr (JStr m)"
| "errorMessage (TypeError m) = Inr (JStr m)"
| "errorMessage (SyntaxError m) = Inr (JStr m)"
| "errorMessage (Thrown v) = get_prop v ''message''"

section \<open>The environment\<close>

text \<open>
  What the core takes from outside: \<open>JSON.parse\<close> (\<open>None\<close> when it throws a
  \<open>SyntaxError\<close>), the identifiers \<open>uuidv4()\<close> hands out (the n-th call returns
  \<open>uuidv4 env n\<close>), the number a string converts to (\<open>None\<close> is \<open>NaN\<close>), the text of
  a number outside the range of the safe integers, and the \<open>integrations\<close> object given
  to the constructor of the engine, read as \<open>this.integrations[key]\<close> (\<open>None\<close> when
  the value is \<open>undefined\<close>).
\<close>

datatype operation =
    generatePlan | analyzeRequirements | generateCode | runTests
  | commitChanges | setupMonitoring | deploy

fun operationName :: "operation \<Rightarrow> string" where
  "operationName generatePlan = ''generatePlan''"
| "operationName analyzeRequirements = ''analyzeRequirements''"
| "operationName generateCode = ''generateCode''"
| "operationName runTests = ''runTests''"
| "operationName commitChanges = ''commitChanges''"
| "operationName setupMonitoring = ''setupMonitoring''"
| "operationName deploy = ''deploy''"

text \<open>
  The promise a call returns: rejected already when the call returns (the callee threw
  before its first \<open>await\<close>), or settling later, after so many milliseconds and with a
  value or a thrown error, or never settling.
\<close>

datatype 'a promise = Rejected js_error | Settles nat "js_error + 'a" | Pending

text \<open>What an awaited call does for the one who awaits it.\<close>

datatype 'a outcome = Resolves 'a | Rejects js_error | NeverSettles

text \<open>
  A capability provider is an object whose methods may be absent (\<open>None\<close>). What a
  method does may depend on its arguments and on every provider call made before it.
\<close>

type_synonym invocation = "operation \<times> json list"

type_synonym provider = "operation \<Rightarrow> (invocation list \<Rightarrow> json list \<Rightarrow> json promise) option"

record environment =
  JSON_parse :: "string \<Rightarrow> json option"
  uuidv4 :: "nat \<Rightarrow> string"
  stringToNumber :: "string \<Rightarrow> int option"
  formatNumber :: "int \<Rightarrow> string"
  integrations :: "string \<Rightarrow> provider option"

text \<open>The decimal digits of a natural number.\<close>

fun decimal :: "nat \<Rightarrow> string" where
  "decimal n =
     (if n < 10 then [''0123456789'' ! n] else decimal (n div 10) @ [''0123456789'' ! (n mod 10)])"

declare decimal.simps [simp del]

text \<open>
  The text of a number: its decimal digits for a safe integer (up to \<open>2^53 - 1\<close> in
  absolute value), what the platform prints beyond.
\<close>

definition numberString :: "environment \<Rightarrow> int \<Rightarrow> string" where
  "numberString env n =
     (if - 9007199254740991 \<le> n \<and> n \<le> 9007199254740991
      then (if n < 0 then ''-'' @ decimal (nat (- n)) else decimal (nat n))
      else formatNumber env n)"

text \<open>
  Conversion to a string, as a template literal, a property key and \<open>JSON.parse\<close> do it.
  An array is the texts of its elements joined by commas, \<open>null\<close> and \<open>undefined\<close>
  elements being empty. An object is \<open>[object Object]\<close>, unless it has an own property
  \<open>toString\<close>: no value of this model can be called, so the conversion throws.
\<close>

fun ToString :: "environment \<Rightarrow> json \<Rightarrow> js_error + string"
  and joinElements :: "environment \<Rightarrow> json list \<Rightarrow> js_error + string" where
  "ToString env JUndefined = Inr ''undefined''"
| "ToString env JNull = Inr ''null''"
| "ToString env (JBool b) = Inr (if b then ''true'' else ''false'')"
| "ToString env (JNum n) = Inr (numberString env n)"
| "ToString env (JStr s) = Inr s"
| "ToString env (JArr xs) = joinElements env xs"
| "ToString env (JObj kvs) =
     (if map_of kvs ''toString'' = None then Inr ''[object Object]''
      else Inl (TypeError ''Cannot convert object to primitive value''))"
| "joinElements env [] = Inr []"
| "joinElements env [x] = (if nullish x then Inr [] else ToString env x)"
| "joinElements env (x # y # ys) =
     (case (if nullish x then Inr [] else ToString env x) of
        Inl e \<Rightarrow> Inl e
      | Inr a \<Rightarrow>
          (case joinElements env (y # ys) of
             Inl e \<Rightarrow> Inl e
           | Inr b \<Rightarrow> Inr (a @ '','' @ b)))"

text \<open>Conversion to a number; an array or an object converts through its string.\<close>

fun ToNumber :: "environment \<Rightarrow> json \<Rightarrow> js_error + int option" where
  "ToNumber env JUndefined = Inr None"
| "ToNumber env JNull = Inr (Some 0)"
| "ToNumber env (JBool b) = Inr (Some (if b then 1 else 0))"
| "ToNumber env (JNum n) = Inr (Some n)"
| "ToNumber env (JStr s) = Inr (stringToNumber env s)"
| "ToNumber env v =
     (case ToString env v of Inl e \<Rightarrow> Inl e | Inr s \<Rightarrow> Inr (stringToNumber env s))"

section \<open>Plan normalization (orchestration-engine.js)\<close>

record step =
  step_id :: json
  step_type :: json
  step_description :: json
  step_integration :: json
  step_parameters :: json
  step_timeout :: json
  step_retryCount :: json

record plan =
  plan_steps :: "step list"
  estimatedDuration :: json
  priority :: json
  dependencies :: json
  rollbackStrategy :: json

text \<open>
  The arrow function of \<open>plan.steps.map\<close> in \<open>validateWorkflowPlan\<close>. The state is the
  number of identifiers \<open>uuidv4\<close> has handed out. Reading \<open>step.id\<close> throws on a
  \<open>null\<close> entry.
\<close>

definition validateStep :: "environment \<Rightarrow> json \<Rightarrow> nat \<Rightarrow> (js_error + step) \<times> nat" where
  "validateStep p s n =
     (case get_prop s ''id'' of
        Inl e \<Rightarrow> (Inl e, n)
      | Inr i \<Rightarrow>
          let (i', n') = (if truthy i then (i, n) else (JStr (uuidv4 p n), Suc n))
          in (Inr \<lparr> step_id = i',
                    step_type = readProp s ''type'',
                    step_description = readProp s ''description'',
                    step_integration = readProp s ''integration'',
                    step_parameters = js_or (readProp s ''parameters'') (JObj []),
                    step_timeout = js_or (readProp s ''timeout'') (JNum 60000),
                    step_retryCount = js_or (readProp s ''retryCount'') (JNum 2) \<rparr>, n'))"

fun validateSteps :: "environment \<Rightarrow> json list \<Rightarrow> nat \<Rightarrow> (js_error + step list) \<times> nat" where
  "validateSteps p [] n = (Inr [], n)"
| "validateSteps p (s # ss) n =
     (case validateStep p s n of
        (Inl e, n') \<Rightarrow> (Inl e, n')
      | (Inr st, n') \<Rightarrow>
          (case validateSteps p ss n' of
             (Inl e, n'') \<Rightarrow> (Inl e, n'')
           | (Inr sts, n'') \<Rightarrow> (Inr (st # sts), n'')))"

definition validateWorkflowPlan :: "environment \<Rightarrow> json \<Rightarrow> nat \<Rightarrow> (js_error + plan) \<times> nat" where
  "validateWorkflowPlan p pl n =
     (case get_prop pl ''estimatedDuration'' of
        Inl e \<Rightarrow> (Inl e, n)
      | Inr d \<Rightarrow>
          let validatedPlan =
                \<lparr> plan_steps = [],
                  estimatedDuration = js_or d (JNum 300),
                  priority = js_or (readProp pl ''priority'') (JStr ''medium''),
                  dependencies = js_or (readProp pl ''dependencies'') (JArr []),
                  rollbackStrategy = js_or (readProp pl ''rollbackStrategy'') (JStr ''automatic'') \<rparr>
          in if truthy (readProp pl ''steps'') \<and> isArray (readProp pl ''steps'')
             then (case validateSteps p (elements (readProp pl ''steps'')) n of
                     (Inl e, n') \<Rightarrow> (Inl e, n')
                   | (Inr sts, n') \<Rightarrow> (Inr (validatedPlan\<lparr> plan_steps := sts \<rparr>), n'))
             else (Inr validatedPlan, n))"

definition fallbackStep :: "environment \<Rightarrow> nat \<Rightarrow> string \<Rightarrow> string \<Rightarrow> string \<Rightarrow> int \<Rightarrow> int \<Rightarrow> step" where
  "fallbackStep p n ty descr integ tmo retries =
     \<lparr> step_id = JStr (uuidv4 p n),
       step_type = JStr ty,
       step_description = JStr descr,
       step_integration = JStr integ,
       step_parameters = JObj [],
       step_timeout = JNum tmo,
       step_retryCount = JNum retries \<rparr>"

definition createFallbackPlan :: "environment \<Rightarrow> nat \<Rightarrow> plan \<times> nat" where
  "createFallbackPlan p n =
     (\<lparr> plan_steps =
          [ fallbackStep p n ''analyze'' ''Analyze requirements'' ''taskMaster'' 30000 1,
            fallbackStep p (n + 1) ''generate_code'' ''Generate or modify code'' ''taskMaster'' 120000 2,
            fallbackStep p (n + 2) ''run_tests'' ''Execute test suite'' ''playwright'' 180000 1,
            fallbackStep p (n + 3) ''commit_changes'' ''Commit changes to repository'' ''github'' 30000 2 ],
        estimatedDuration = JNum 360,
        priority = JStr ''medium'',
        dependencies = JArr [],
        rollbackStrategy = JStr ''automatic'' \<rparr>, n + 4)"

text \<open>
  \<open>parseWorkflowPlan\<close>: whatever is thrown inside the \<open>try\<close> block, by \<open>JSON.parse\<close> or
  by the validation, is caught and answered with the fallback plan.
\<close>

definition parseWorkflowPlan :: "environment \<Rightarrow> string \<Rightarrow> nat \<Rightarrow> (js_error + plan) \<times> nat" where
  "parseWorkflowPlan p aiResponse n =
     (case (case JSON_parse p aiResponse of
              None \<Rightarrow> (Inl (SyntaxError ''Unexpected token''), n)
            | Some pl \<Rightarrow> validateWorkflowPlan p pl n) of
        (Inr vp, n') \<Rightarrow> (Inr vp, n')
      | (Inl e, n') \<Rightarrow> (case createFallbackPlan p n' of (fp, n'') \<Rightarrow> (Inr fp, n'')))"

section \<open>Workflows and the state of the engine\<close>

datatype wf_status = pending | running | completed | failed | cancelled | cancelling

datatype result_type = analysis | code_generation | test_results | commit | monitoring | deployment

text \<open>What a step handler returns; a timestamp is the reading of the clock, in milliseconds.\<close>

record step_result =
  result_type :: result_type
  result_data :: json
  result_timestamp :: nat

text \<open>An entry of \<open>workflow.steps\<close>: the step, spread, with its status, result and time.\<close>

record executed_step =
  es_step :: step
  es_status :: wf_status
  es_result :: step_result
  executedAt :: nat

record summary =
  totalSteps :: nat
  successfulSteps :: nat
  executionTime :: nat
  artifacts :: "json list"
  recommendations :: "json list"
  testsPassed :: "json option"
  testsFailed :: "json option"
  commitSha :: "json option"
  commitUrl :: "json option"

record final_result =
  fr_workflowId :: string
  fr_status :: wf_status
  fr_steps :: "step_result list"
  fr_summary :: summary

record failure_result =
  fl_workflowId :: string
  fl_status :: wf_status
  fl_error :: json
  fl_completedSteps :: nat
  fl_totalSteps :: nat

record workflow =
  wf_id :: string
  instruction :: json
  options :: json
  status :: wf_status
  createdAt :: nat
  wf_steps :: "executed_step list"
  wf_plan :: "plan option"
  wf_result :: "final_result option"
  wf_error :: "json option"
  completedAt :: "nat option"
  failedAt :: "nat option"
  cancelledAt :: "nat option"

datatype event =
    workflow_started string "plan option"
  | workflow_completed final_result
  | workflow_failed failure_result

record metrics =
  totalWorkflows :: nat
  completedWorkflows :: nat
  failedWorkflows :: nat
  averageDuration :: rat

text \<open>
  The engine with its executor and its state manager, and the world around them. Workflow
  objects are shared between the engine's registry, the executor's registry and the
  running call, so they live in a heap and a registry maps an id to a reference (an
  index of the heap). \<open>uuids\<close> counts the identifiers handed out, \<open>calls\<close> logs the
  provider methods invoked, \<open>emitted\<close> the events the engine has emitted.
\<close>

record state =
  isInitialized :: bool
  heap :: "workflow list"
  activeWorkflows :: "(string \<times> nat) list"
  runningWorkflows :: "(string \<times> nat) list"
  metrics :: metrics
  uuids :: nat
  calls :: "invocation list"
  clock :: nat
  emitted :: "event list"

definition modify :: "nat \<Rightarrow> (workflow \<Rightarrow> workflow) \<Rightarrow> state \<Rightarrow> state" where
  "modify w f s = s\<lparr> heap := (heap s)[w := f (heap s ! w)] \<rparr>"

section \<open>The state manager (state-manager.js)\<close>

definition updateMetrics :: "workflow \<Rightarrow> metrics \<Rightarrow> metrics" where
  "updateMetrics workflow m =
     (let m1 = m\<lparr> totalWorkflows := totalWorkflows m + 1 \<rparr>;
          m2 = (if status workflow = completed then m1\<lparr> completedWorkflows := completedWorkflows m1 + 1 \<rparr>
                else if status workflow = failed then m1\<lparr> failedWorkflows := failedWorkflows m1 + 1 \<rparr>
                else m1)
      in case completedAt workflow of
           None \<Rightarrow> m2
         | Some c \<Rightarrow>
             m2\<lparr> averageDuration :=
                   (averageDuration m2 * of_nat (totalWorkflows m2 - 1) + of_int (int c - int (createdAt workflow)))
                   / of_nat (totalWorkflows m2) \<rparr>)"

definition getTotalWorkflows :: "metrics \<Rightarrow> nat" where
  "getTotalWorkflows m = totalWorkflows m"

definition getSuccessRate :: "metrics \<Rightarrow> rat" where
  "getSuccessRate m =
     (if totalWorkflows m = 0 then 0 else of_nat (completedWorkflows m) / of_nat (totalWorkflows m))"

definition getAverageDuration :: "metrics \<Rightarrow> rat" where
  "getAverageDuration m = averageDuration m"

section \<open>The workflow executor (WorkflowExecutor)\<close>

text \<open>
  Calling a method of a provider: a \<open>TypeError\<close> that names the callee when the method
  is absent, else the call is made, and logged.
\<close>

definition invoke ::
  "string \<Rightarrow> provider \<Rightarrow> operation \<Rightarrow> json list \<Rightarrow> state \<Rightarrow> json promise \<times> state" where
  "invoke callee integration op args s =
     (case integration op of
        None \<Rightarrow> (Rejected (TypeError (callee @ ''.'' @ operationName op @ '' is not a function'')), s)
      | Some f \<Rightarrow> (f (calls s) args, s\<lparr> calls := calls s @ [(op, args)] \<rparr>))"

text \<open>The handler's result object, stamped when the provider's call settles.\<close>

fun stamped :: "result_type \<Rightarrow> nat \<Rightarrow> json promise \<Rightarrow> step_result promise" where
  "stamped ty now (Settles d (Inr v)) =
     Settles d (Inr \<lparr> result_type = ty, result_data = v, result_timestamp = now + d \<rparr>)"
| "stamped ty now (Settles d (Inl e)) = Settles d (Inl e)"
| "stamped ty now (Rejected e) = Rejected e"
| "stamped ty now Pending = Pending"

definition handleAnalyzeStep :: "provider \<Rightarrow> json \<Rightarrow> workflow \<Rightarrow> state \<Rightarrow> step_result promise \<times> state" where
  "handleAnalyzeStep integration parameters workflow s =
     (case invoke ''integration'' integration analyzeRequirements [instruction workflow, parameters] s of
        (pr, s') \<Rightarrow> (stamped analysis (clock s) pr, s'))"

definition handleGenerateCodeStep :: "provider \<Rightarrow> json \<Rightarrow> workflow \<Rightarrow> state \<Rightarrow> step_result promise \<times> state" where
  "handleGenerateCodeStep integration parameters workflow s =
     (case invoke ''integration'' integration generateCode [instruction workflow, parameters] s of
        (pr, s') \<Rightarrow> (stamped code_generation (clock s) pr, s'))"

definition handleRunTestsStep :: "provider \<Rightarrow> json \<Rightarrow> workflow \<Rightarrow> state \<Rightarrow> step_result promise \<times> state" where
  "handleRunTestsStep integration parameters workflow s =
     (case invoke ''integration'' integration runTests [parameters] s of
        (pr, s') \<Rightarrow> (stamped test_results (clock s) pr, s'))"

definition handleCommitChangesStep :: "provider \<Rightarrow> json \<Rightarrow> workflow \<Rightarrow> state \<Rightarrow> step_result promise \<times> state" where
  "handleCommitChangesStep integration parameters workflow s =
     (case get_prop parameters ''message'' of
        Inl e \<Rightarrow> (Rejected e, s)
      | Inr m \<Rightarrow>
          (case invoke ''integration'' integration commitChanges
                  [JObj [(''message'', js_or m (JStr (''Automated commit for workflow '' @ wf_id workflow))),
                         (''files'', js_or (readProp parameters ''files'') (JArr [])),
                         (''branch'', js_or (readProp parameters ''branch'') (JStr ''main''))]] s of
             (pr, s') \<Rightarrow> (stamped commit (clock s) pr, s')))"

definition handleMonitorStep :: "provider \<Rightarrow> json \<Rightarrow> workflow \<Rightarrow> state \<Rightarrow> step_result promise \<times> state" where
  "handleMonitorStep integration parameters workflow s =
     (case invoke ''integration'' integration setupMonitoring [JStr (wf_id workflow), parameters] s of
        (pr, s') \<Rightarrow> (stamped monitoring (clock s) pr, s'))"

definition handleDeployStep :: "provider \<Rightarrow> json \<Rightarrow> workflow \<Rightarrow> state \<Rightarrow> step_result promise \<times> state" where
  "handleDeployStep integration parameters workflow s =
     (case invoke ''integration'' integration deploy [parameters] s of
        (pr, s') \<Rightarrow> (stamped deployment (clock s) pr, s'))"

text \<open>
  \<open>return await handler(...)\<close>: a handler that threw at once still rejects the caller's
  promise only a moment later.
\<close>

fun awaited :: "'a promise \<Rightarrow> 'a promise" where
  "awaited (Rejected e) = Settles 0 (Inl e)"
| "awaited p = p"

text \<open>
  \<open>runStepWithIntegration\<close>. The name of the integration is used as a property key, so it
  is converted to a string first. What is thrown before a handler is entered rejects the
  promise at once.
\<close>

definition runStepWithIntegration ::
  "environment \<Rightarrow> json \<Rightarrow> json \<Rightarrow> json \<Rightarrow> workflow \<Rightarrow> state \<Rightarrow> step_result promise \<times> state" where
  "runStepWithIntegration env ty integrationName parameters workflow s =
     (case ToString env integrationName of
        Inl e \<Rightarrow> (Rejected e, s)
      | Inr key \<Rightarrow>
          (case integrations env key of
             None \<Rightarrow>
               (Rejected (Error (''Integration '' @ [CHR 0x27] @ key @ [CHR 0x27] @ '' not found'')), s)
           | Some integration \<Rightarrow>
               if ty = JStr ''analyze''
               then apfst awaited (handleAnalyzeStep integration parameters workflow s)
               else if ty = JStr ''generate_code''
               then apfst awaited (handleGenerateCodeStep integration parameters workflow s)
               else if ty = JStr ''run_tests''
               then apfst awaited (handleRunTestsStep integration parameters workflow s)
               else if ty = JStr ''commit_changes''
               then apfst awaited (handleCommitChangesStep integration parameters workflow s)
               else if ty = JStr ''monitor''
               then apfst awaited (handleMonitorStep integration parameters workflow s)
               else if ty = JStr ''deploy''
               then apfst awaited (handleDeployStep integration parameters workflow s)
               else (case ToString env ty of
                       Inl e \<Rightarrow> (Rejected e, s)
                     | Inr t \<Rightarrow> (Rejected (Error (''Unknown step type: '' @ t)), s))))"

text \<open>
  The delay \<open>setTimeout\<close> arms for a number: the number, or one millisecond when it is
  \<open>NaN\<close>, below 1 or above \<open>2^31 - 1\<close>.
\<close>

definition timerDelay :: "int option \<Rightarrow> nat" where
  "timerDelay num =
     (case num of
        None \<Rightarrow> 1
      | Some n \<Rightarrow> if 1 \<le> n \<and> n \<le> 2147483647 then nat n else 1)"

text \<open>The text of the timeout error, built in the callback of the timer.\<close>

definition timeoutMessage :: "environment \<Rightarrow> step \<Rightarrow> js_error + string" where
  "timeoutMessage env st =
     (case ToString env (step_id st) of
        Inl e \<Rightarrow> Inl e
      | Inr i \<Rightarrow>
          (case ToString env (step_timeout st) of
             Inl e \<Rightarrow> Inl e
           | Inr t \<Rightarrow> Inr (''Step '' @ i @ '' timed out after '' @ t @ ''ms'')))"

text \<open>
  The timer fires after \<open>delay\<close> milliseconds. When its callback cannot build the text it
  throws outside every promise: an uncaught exception, on which the process shuts down,
  so the race is never decided.
\<close>

definition timerFires :: "environment \<Rightarrow> step \<Rightarrow> nat \<Rightarrow> state \<Rightarrow> step_result outcome \<times> state" where
  "timerFires env st delay s =
     (case timeoutMessage env st of
        Inl e \<Rightarrow> (NeverSettles, s\<lparr> clock := clock s + delay \<rparr>)
      | Inr m \<Rightarrow> (Rejects (Error m), s\<lparr> clock := clock s + delay \<rparr>))"

text \<open>
  \<open>executeStep\<close>: the handler's promise raced against the promise of the timer. A
  handler's promise that is rejected already wins. \<open>setTimeout\<close> converts the timeout to
  a number; when that throws, the promise of the timer is rejected at once and wins
  against a handler that has not settled yet. Otherwise the handler wins when it settles
  no later than the timer fires. The clock moves to the moment the race is decided; the
  losing call is not cancelled.
\<close>

definition executeStep :: "environment \<Rightarrow> step \<Rightarrow> workflow \<Rightarrow> state \<Rightarrow> step_result outcome \<times> state" where
  "executeStep env st workflow s =
     (case runStepWithIntegration env (step_type st) (step_integration st) (step_parameters st) workflow s of
        (Rejected e, s') \<Rightarrow> (Rejects e, s')
      | (pr, s') \<Rightarrow>
          (case ToNumber env (step_timeout st) of
             Inl e \<Rightarrow> (Rejects e, s')
           | Inr num \<Rightarrow>
               (case pr of
                  Settles d r \<Rightarrow>
                    if d \<le> timerDelay num
                    then ((case r of Inl e \<Rightarrow> Rejects e | Inr v \<Rightarrow> Resolves v), s'\<lparr> clock := clock s' + d \<rparr>)
                    else timerFires env st (timerDelay num) s'
                | _ \<Rightarrow> timerFires env st (timerDelay num) s')))"

text \<open>The argument of \<open>push(...files)\<close>: an array or a string is iterable.\<close>

fun spread :: "json \<Rightarrow> js_error + json list" where
  "spread (JArr xs) = Inr xs"
| "spread (JStr cs) = Inr (map (\<lambda>c. JStr [c]) cs)"
| "spread v = Inl (TypeError ''Spread syntax requires ...iterable[Symbol.iterator] to be a function'')"

text \<open>The body of \<open>results.forEach\<close> in \<open>generateSummary\<close>.\<close>

definition summarize :: "step_result \<Rightarrow> summary \<Rightarrow> js_error + summary" where
  "summarize r sm =
     (case result_type r of
        code_generation \<Rightarrow>
          (case get_prop (result_data r) ''files'' of
             Inl e \<Rightarrow> Inl e
           | Inr files \<Rightarrow>
               if truthy files
               then (case spread files of
                       Inl e \<Rightarrow> Inl e
                     | Inr xs \<Rightarrow> Inr (sm\<lparr> artifacts := artifacts sm @ xs \<rparr>))
               else Inr sm)
      | test_results \<Rightarrow>
          (case get_prop (result_data r) ''passed'' of
             Inl e \<Rightarrow> Inl e
           | Inr passed \<Rightarrow>
               Inr (sm\<lparr> testsPassed := Some (js_or passed (JNum 0)),
                        testsFailed := Some (js_or (readProp (result_data r) ''failed'') (JNum 0)) \<rparr>))
      | commit \<Rightarrow>
          (case get_prop (result_data r) ''sha'' of
             Inl e \<Rightarrow> Inl e
           | Inr sha \<Rightarrow>
               Inr (sm\<lparr> commitSha := Some sha,
                        commitUrl := Some (readProp (result_data r) ''html_url'') \<rparr>))
      | _ \<Rightarrow> Inr sm)"

fun forEachResult :: "step_result list \<Rightarrow> summary \<Rightarrow> js_error + summary" where
  "forEachResult [] sm = Inr sm"
| "forEachResult (r # rs) sm =
     (case summarize r sm of Inl e \<Rightarrow> Inl e | Inr sm' \<Rightarrow> forEachResult rs sm')"

definition generateSummary :: "step_result list \<Rightarrow> js_error + summary" where
  "generateSummary results =
     forEachResult results
       \<lparr> totalSteps = length results,
         successfulSteps = length (filter (\<lambda>r. truthy (result_data r)) results),
         executionTime = 0,
         artifacts = [],
         recommendations = [],
         testsPassed = None,
         testsFailed = None,
         commitSha = None,
         commitUrl = None \<rparr>"

text \<open>
  \<open>emit\<close> of the executor, with the listeners \<open>setupEventListeners\<close> installs: the
  engine drops a completed or failed workflow from its registry and emits the event
  itself.
\<close>

fun emit :: "event \<Rightarrow> state \<Rightarrow> state" where
  "emit (workflow_started wid pl) s = s\<lparr> emitted := emitted s @ [workflow_started wid pl] \<rparr>"
| "emit (workflow_completed fr) s =
     s\<lparr> activeWorkflows := AList.delete (fr_workflowId fr) (activeWorkflows s),
        emitted := emitted s @ [workflow_completed fr] \<rparr>"
| "emit (workflow_failed fl) s =
     s\<lparr> activeWorkflows := AList.delete (fl_workflowId fl) (activeWorkflows s),
        emitted := emitted s @ [workflow_failed fl] \<rparr>"

text \<open>The line the loop of \<open>execute\<close> logs before it runs a step.\<close>

definition stepLogLine :: "environment \<Rightarrow> step \<Rightarrow> js_error + string" where
  "stepLogLine env st =
     (case ToString env (step_id st) of
        Inl e \<Rightarrow> Inl e
      | Inr i \<Rightarrow>
          (case ToString env (step_description st) of
             Inl e \<Rightarrow> Inl e
           | Inr d \<Rightarrow> Inr (''Executing step '' @ i @ '': '' @ d)))"

text \<open>
  The body of the loop of \<open>execute\<close> up to the end of its \<open>await\<close>: the log line, which
  throws when the id or the description of the step has no string, then \<open>executeStep\<close>.
\<close>

definition attemptStep :: "environment \<Rightarrow> step \<Rightarrow> workflow \<Rightarrow> state \<Rightarrow> step_result outcome \<times> state" where
  "attemptStep env st workflow s =
     (case stepLogLine env st of
        Inl e \<Rightarrow> (Rejects e, s)
      | Inr line \<Rightarrow> executeStep env st workflow s)"

text \<open>
  The \<open>for\<close> loop of \<open>execute\<close> over the steps still to run, for the workflow object at
  reference \<open>w\<close>: the first error leaves the loop, with the results collected so far.
\<close>

fun runSteps ::
  "environment \<Rightarrow> nat \<Rightarrow> step list \<Rightarrow> step_result list \<Rightarrow> state \<Rightarrow> (unit outcome \<times> step_result list) \<times> state" where
  "runSteps env w [] results s = ((Resolves (), results), s)"
| "runSteps env w (st # sts) results s =
     (case attemptStep env st (heap s ! w) s of
        (Rejects e, s') \<Rightarrow> ((Rejects e, results), s')
      | (NeverSettles, s') \<Rightarrow> ((NeverSettles, results), s')
      | (Resolves stepResult, s') \<Rightarrow>
          runSteps env w sts (results @ [stepResult])
            (modify w (\<lambda>workflow. workflow\<lparr> wf_steps := wf_steps workflow @
                 [\<lparr> es_step = st, es_status = completed, es_result = stepResult,
                    executedAt = clock s' \<rparr>] \<rparr>) s'))"

text \<open>
  The \<open>catch\<close> and \<open>finally\<close> blocks of \<open>execute\<close>. Reading \<open>error.message\<close> comes first:
  when that throws, no event is emitted and the new error leaves the block.
\<close>

definition failWith :: "string \<Rightarrow> js_error \<Rightarrow> step_result list \<Rightarrow> nat \<Rightarrow> state \<Rightarrow> final_result outcome \<times> state" where
  "failWith wid e results n s =
     (case errorMessage e of
        Inl e' \<Rightarrow> (Rejects e', s\<lparr> runningWorkflows := AList.delete wid (runningWorkflows s) \<rparr>)
      | Inr m \<Rightarrow>
          let failureResult = \<lparr> fl_workflowId = wid, fl_status = failed, fl_error = m,
                                  fl_completedSteps = length results, fl_totalSteps = n \<rparr>;
              s' = emit (workflow_failed failureResult) s
          in (Rejects e, s'\<lparr> runningWorkflows := AList.delete wid (runningWorkflows s') \<rparr>))"

text \<open>
  \<open>execute\<close>: an error of the loop or of \<open>generateSummary\<close> is caught, reported by a
  \<open>workflow:failed\<close> event and thrown again; \<open>finally\<close> clears the executor's registry. A
  workflow without a plan throws before the \<open>try\<close> block.
\<close>

definition execute :: "environment \<Rightarrow> nat \<Rightarrow> state \<Rightarrow> final_result outcome \<times> state" where
  "execute env w s0 =
     (let workflow = heap s0 ! w;
          wid = wf_id workflow;
          s1 = s0\<lparr> runningWorkflows := AList.update wid w (runningWorkflows s0) \<rparr>;
          s2 = emit (workflow_started wid (wf_plan workflow)) s1
      in case wf_plan workflow of
           None \<Rightarrow> (Rejects (TypeError ''Cannot read properties of undefined (reading 'steps')''), s2)
         | Some pl \<Rightarrow>
             (case runSteps env w (plan_steps pl) [] s2 of
                ((Rejects e, results), s3) \<Rightarrow> failWith wid e results (length (plan_steps pl)) s3
              | ((NeverSettles, results), s3) \<Rightarrow> (NeverSettles, s3)
              | ((Resolves u, results), s3) \<Rightarrow>
                  (case generateSummary results of
                     Inl e \<Rightarrow> failWith wid e results (length (plan_steps pl)) s3
                   | Inr sm \<Rightarrow>
                       let finalResult = \<lparr> fr_workflowId = wid, fr_status = completed,
                                            fr_steps = results, fr_summary = sm \<rparr>;
                           s4 = emit (workflow_completed finalResult) s3
                       in (Resolves finalResult, s4\<lparr> runningWorkflows := AList.delete wid (runningWorkflows s4) \<rparr>))))"

text \<open>\<open>WorkflowExecutor.cancel\<close>.\<close>

definition cancel :: "string \<Rightarrow> state \<Rightarrow> state" where
  "cancel wid s =
     (case map_of (runningWorkflows s) wid of
        None \<Rightarrow> s
      | Some w \<Rightarrow>
          (modify w (\<lambda>workflow. workflow\<lparr> status := cancelling \<rparr>) s)
            \<lparr> runningWorkflows := AList.delete wid (runningWorkflows s) \<rparr>)"

section \<open>The orchestration engine (orchestration-engine.js)\<close>

record envelope =
  success :: bool
  workflowId :: string
  env_result :: "final_result option"
  env_error :: "json option"

text \<open>The constructor, and \<open>initialize\<close>, which creates the executor and the state manager.\<close>

definition zeroMetrics :: metrics where
  "zeroMetrics = \<lparr> totalWorkflows = 0, completedWorkflows = 0, failedWorkflows = 0, averageDuration = 0 \<rparr>"

definition newEngine :: state where
  "newEngine = \<lparr> isInitialized = False, heap = [], activeWorkflows = [], runningWorkflows = [],
                  metrics = zeroMetrics, uuids = 0, calls = [], clock = 0, emitted = [] \<rparr>"

definition initialize :: "state \<Rightarrow> state" where
  "initialize s = s\<lparr> runningWorkflows := [], metrics := zeroMetrics, isInitialized := True \<rparr>"

text \<open>The prompt of \<open>createWorkflowPlan\<close>, around the text of the instruction.\<close>

definition promptAround :: "string \<Rightarrow> string" where
  "promptAround instructionText =
     [CHR 0x0A] @ ''Analyze this development instruction and create a detailed workflow plan:'' @ [CHR 0x0A]
     @ [CHR 0x22] @ instructionText @ [CHR 0x22] @ [CHR 0x0A]
     @ [CHR 0x0A] @ ''Consider these available integrations:'' @ [CHR 0x0A]
     @ ''- GitHub API (repository management, commits, PRs)'' @ [CHR 0x0A]
     @ ''- Playwright (testing, browser automation)'' @ [CHR 0x0A]
     @ ''- Phoenix (monitoring, observability)'' @ [CHR 0x0A]
     @ ''- FastMCP (inter-service communication)'' @ [CHR 0x0A]
     @ [CHR 0x0A] @ ''Create a step-by-step plan with:'' @ [CHR 0x0A]
     @ ''1. Code analysis/generation steps'' @ [CHR 0x0A]
     @ ''2. Testing requirements'' @ [CHR 0x0A]
     @ ''3. Repository operations'' @ [CHR 0x0A]
     @ ''4. Monitoring setup'' @ [CHR 0x0A]
     @ ''5. Deployment considerations'' @ [CHR 0x0A]
     @ [CHR 0x0A] @ ''Respond with a JSON workflow plan.'' @ [CHR 0x0A]"

definition planPrompt :: "environment \<Rightarrow> json \<Rightarrow> js_error + string" where
  "planPrompt env instr =
     (case ToString env instr of Inl e \<Rightarrow> Inl e | Inr t \<Rightarrow> Inr (promptAround t))"

text \<open>
  \<open>parseWorkflowPlan\<close> on the answer of the planning provider, which may be any value:
  \<open>JSON.parse\<close> converts it to a string first, and a conversion that throws is caught
  like everything else in the \<open>try\<close> block.
\<close>

definition parseAnswer :: "environment \<Rightarrow> json \<Rightarrow> nat \<Rightarrow> (js_error + plan) \<times> nat" where
  "parseAnswer env aiResponse n =
     (case ToString env aiResponse of
        Inl e \<Rightarrow> (case createFallbackPlan env n of (fp, n') \<Rightarrow> (Inr fp, n'))
      | Inr src \<Rightarrow> parseWorkflowPlan env src n)"

text \<open>
  \<open>createWorkflowPlan\<close> awaits the planning provider with no timer: when that call never
  settles, neither does this one.
\<close>

definition createWorkflowPlan :: "environment \<Rightarrow> json \<Rightarrow> json \<Rightarrow> state \<Rightarrow> plan outcome \<times> state" where
  "createWorkflowPlan env instr opts s =
     (case planPrompt env instr of
        Inl e \<Rightarrow> (Rejects e, s)
      | Inr prompt \<Rightarrow>
          (case integrations env ''taskMaster'' of
             None \<Rightarrow> (Rejects (TypeError ''Cannot read properties of undefined (reading 'generatePlan')''), s)
           | Some taskMaster \<Rightarrow>
               (case invoke ''this.integrations.taskMaster'' taskMaster generatePlan [JStr prompt, opts] s of
                  (Pending, s') \<Rightarrow> (NeverSettles, s')
                | (Rejected e, s') \<Rightarrow> (Rejects e, s')
                | (Settles d (Inl e), s') \<Rightarrow> (Rejects e, s'\<lparr> clock := clock s' + d \<rparr>)
                | (Settles d (Inr aiResponse), s') \<Rightarrow>
                    (case parseAnswer env aiResponse (uuids s') of
                       (Inl e, n) \<Rightarrow> (Rejects e, s'\<lparr> clock := clock s' + d, uuids := n \<rparr>)
                     | (Inr pl, n) \<Rightarrow> (Resolves pl, s'\<lparr> clock := clock s' + d, uuids := n \<rparr>)))))"

text \<open>
  The \<open>catch\<close> block of \<open>executeWorkflow\<close>: the status is set, then \<open>error.message\<close> is
  read; when that throws, the block is left and the promise of \<open>executeWorkflow\<close> rejects.
\<close>

definition failWorkflow :: "nat \<Rightarrow> string \<Rightarrow> js_error \<Rightarrow> state \<Rightarrow> envelope outcome \<times> state" where
  "failWorkflow w wid e s =
     (let s1 = modify w (\<lambda>workflow. workflow\<lparr> status := failed \<rparr>) s
      in case errorMessage e of
           Inl e' \<Rightarrow> (Rejects e', s1)
         | Inr m \<Rightarrow>
             (Resolves \<lparr> success = False, workflowId = wid, env_result = None, env_error = Some m \<rparr>,
              modify w (\<lambda>workflow. workflow\<lparr> wf_error := Some m, failedAt := Some (clock s) \<rparr>) s1))"

text \<open>The \<open>try\<close> block of \<open>executeWorkflow\<close> from the moment the plan is there.\<close>

definition executePlanned :: "environment \<Rightarrow> nat \<Rightarrow> string \<Rightarrow> plan \<Rightarrow> state \<Rightarrow> envelope outcome \<times> state" where
  "executePlanned env w wid pl s =
     (case execute env w (modify w (\<lambda>workflow. workflow\<lparr> wf_plan := Some pl, status := running \<rparr>) s) of
        (Rejects e, s') \<Rightarrow> failWorkflow w wid e s'
      | (NeverSettles, s') \<Rightarrow> (NeverSettles, s')
      | (Resolves result, s') \<Rightarrow>
          (Resolves \<lparr> success = True, workflowId = wid, env_result = Some result, env_error = None \<rparr>,
           modify w (\<lambda>workflow. workflow\<lparr> status := completed, wf_result := Some result,
                                           completedAt := Some (clock s') \<rparr>) s'))"

text \<open>
  \<open>executeWorkflow\<close>. The workflow is registered, then a line that contains the
  instruction is logged, before the \<open>try\<close> block: an instruction without a string makes
  the call reject there.
\<close>

definition executeWorkflow :: "environment \<Rightarrow> json \<Rightarrow> json \<Rightarrow> state \<Rightarrow> envelope outcome \<times> state" where
  "executeWorkflow env instr options0 s0 =
     (if \<not> isInitialized s0 then (Rejects (Error ''Orchestration Engine not initialized''), s0)
      else
        let opts = (if options0 = JUndefined then JObj [] else options0);
            wid = uuidv4 env (uuids s0);
            w = length (heap s0);
            workflow = \<lparr> wf_id = wid, instruction = instr, options = opts, status = pending,
                         createdAt = clock s0, wf_steps = [], wf_plan = None, wf_result = None,
                         wf_error = None, completedAt = None, failedAt = None, cancelledAt = None \<rparr>;
            s1 = s0\<lparr> uuids := Suc (uuids s0), heap := heap s0 @ [workflow],
                     activeWorkflows := AList.update wid w (activeWorkflows s0) \<rparr>
        in case ToString env instr of
             Inl e \<Rightarrow> (Rejects e, s1)
           | Inr instructionText \<Rightarrow>
               (case createWorkflowPlan env instr opts s1 of
                  (NeverSettles, s2) \<Rightarrow> (NeverSettles, s2)
                | (Rejects e, s2) \<Rightarrow> failWorkflow w wid e s2
                | (Resolves pl, s2) \<Rightarrow> executePlanned env w wid pl s2))"

text \<open>\<open>getWorkflowStatus\<close> and \<open>cancelWorkflow\<close> return the workflow object: its reference.\<close>

definition notFound :: "string \<Rightarrow> js_error" where
  "notFound wid = Error (''Workflow '' @ wid @ '' not found'')"

definition getWorkflowStatus :: "string \<Rightarrow> state \<Rightarrow> js_error + nat" where
  "getWorkflowStatus wid s =
     (case map_of (activeWorkflows s) wid of None \<Rightarrow> Inl (notFound wid) | Some w \<Rightarrow> Inr w)"

definition cancelWorkflow :: "string \<Rightarrow> state \<Rightarrow> (js_error + nat) \<times> state" where
  "cancelWorkflow wid s =
     (case map_of (activeWorkflows s) wid of
        None \<Rightarrow> (Inl (notFound wid), s)
      | Some w \<Rightarrow>
          let s1 = (if status (heap s ! w) = running
                    then modify w (\<lambda>workflow. workflow\<lparr> status := cancelled,
                                                         cancelledAt := Some (clock s) \<rparr>) (cancel wid s)
                    else s)
          in (Inr w, s1\<lparr> activeWorkflows := AList.delete wid (activeWorkflows s1) \<rparr>))"

text \<open>
  \<open>getMetrics\<close> of the engine, without \<open>uptime\<close> (a reading of the process clock); the
  state manager is \<open>null\<close> before \<open>initialize\<close>. \<open>StateManager_getMetrics\<close> is the copy the
  state manager's own \<open>getMetrics\<close> returns.
\<close>

record engine_metrics =
  m_activeWorkflows :: nat
  m_totalWorkflows :: nat
  m_successRate :: rat
  m_averageDuration :: rat

definition getMetrics :: "state \<Rightarrow> js_error + engine_metrics" where
  "getMetrics s =
     (if \<not> isInitialized s
      then Inl (TypeError ''Cannot read properties of null (reading 'getTotalWorkflows')'')
      else Inr \<lparr> m_activeWorkflows = length (activeWorkflows s),
                 m_totalWorkflows = getTotalWorkflows (metrics s),
                 m_successRate = getSuccessRate (metrics s),
                 m_averageDuration = getAverageDuration (metrics s) \<rparr>)"

definition StateManager_getMetrics :: "state \<Rightarrow> metrics" where
  "StateManager_getMetrics s = metrics s"

section \<open>The task queue (task-queue.js)\<close>

datatype task_status = t_queued | t_processing | t_completed | t_failed

record raw_task =
  raw_id :: json
  raw_type :: json
  raw_data :: json

record task =
  task_id :: json
  task_type :: json
  task_data :: json
  task_status :: task_status
  task_queuedAt :: nat
  task_startedAt :: "nat option"
  task_result :: "json option"
  task_completedAt :: "nat option"
  task_error :: "json option"
  task_failedAt :: "nat option"

datatype task_event = task_queued task | task_started task | task_completed task | task_failed task

text \<open>
  \<open>activeJobs\<close> is a \<open>Set\<close>: a list without repetition, in insertion order. \<open>inflight\<close>
  holds the tasks whose \<open>processTask\<close> call waits for \<open>executeTask\<close>.
\<close>

record task_queue =
  queue :: "task list"
  processing :: bool
  maxConcurrent :: nat
  activeJobs :: "json list"
  inflight :: "task list"
  tq_emitted :: "task_event list"

definition setAdd :: "json \<Rightarrow> json list \<Rightarrow> json list" where
  "setAdd x xs = (if x \<in> set xs then xs else xs @ [x])"

definition setDelete :: "json \<Rightarrow> json list \<Rightarrow> json list" where
  "setDelete x xs = removeAll x xs"

definition TaskQueue_new :: task_queue where
  "TaskQueue_new = \<lparr> queue = [], processing = False, maxConcurrent = 3, activeJobs = [],
                      inflight = [], tq_emitted = [] \<rparr>"

text \<open>\<open>addTask\<close> at clock reading \<open>now\<close>; it returns the id of the queued task.\<close>

definition addTask :: "environment \<Rightarrow> raw_task \<Rightarrow> nat \<Rightarrow> task_queue \<Rightarrow> json \<times> task_queue" where
  "addTask env raw now q =
     (let queuedTask = \<lparr> task_id = js_or (raw_id raw) (JStr (numberString env (int now))),
                          task_type = raw_type raw, task_data = raw_data raw,
                          task_status = t_queued, task_queuedAt = now, task_startedAt = None,
                          task_result = None, task_completedAt = None, task_error = None,
                          task_failedAt = None \<rparr>
      in (task_id queuedTask,
          q\<lparr> queue := queue q @ [queuedTask], tq_emitted := tq_emitted q @ [task_queued queuedTask] \<rparr>))"

text \<open>\<open>processTask\<close> up to its \<open>await\<close>.\<close>

definition processTask_start :: "task \<Rightarrow> nat \<Rightarrow> task_queue \<Rightarrow> task_queue" where
  "processTask_start tk now q =
     (let tk' = tk\<lparr> task_status := t_processing, task_startedAt := Some now \<rparr>
      in q\<lparr> activeJobs := setAdd (task_id tk) (activeJobs q),
            inflight := inflight q @ [tk'],
            tq_emitted := tq_emitted q @ [task_started tk'] \<rparr>)"

text \<open>One pass through the body of the \<open>while\<close> loop of \<open>startProcessing\<close>.\<close>

definition loopBody :: "nat \<Rightarrow> task_queue \<Rightarrow> task_queue" where
  "loopBody now q =
     (case queue q of
        [] \<Rightarrow> q
      | tk # rest \<Rightarrow>
          if length (activeJobs q) < maxConcurrent q
          then processTask_start tk now (q\<lparr> queue := rest \<rparr>)
          else q)"

definition executeTask :: "environment \<Rightarrow> task \<Rightarrow> js_error + json" where
  "executeTask env tk =
     (if task_type tk = JStr ''code_analysis''
      then Inr (JObj [(''analyzed'', JBool True), (''metrics'', JObj [])])
      else if task_type tk = JStr ''test_execution''
      then Inr (JObj [(''passed'', JNum 0), (''failed'', JNum 0), (''coverage'', JNum 0)])
      else if task_type tk = JStr ''deployment''
      then Inr (JObj [(''deployed'', JBool True), (''url'', JStr [])])
      else (case ToString env (task_type tk) of
              Inl e \<Rightarrow> Inl e
            | Inr t \<Rightarrow> Inl (Error (''Unknown task type: '' @ t))))"

text \<open>
  \<open>processTask\<close> from its \<open>await\<close> on, for the i-th task in flight: the \<open>try\<close> and
  \<open>catch\<close> blocks first, which emit what became of the task; in the \<open>catch\<close> block the
  status is set before \<open>error.message\<close> is read, and nothing is emitted when that read
  throws. Then \<open>finally\<close>, which always runs.
\<close>

definition taskSettled :: "environment \<Rightarrow> task \<Rightarrow> nat \<Rightarrow> task_queue \<Rightarrow> task_queue" where
  "taskSettled env tk now q =
     (case executeTask env tk of
        Inr r \<Rightarrow>
          q\<lparr> tq_emitted := tq_emitted q @
                [task_completed (tk\<lparr> task_status := t_completed, task_result := Some r,
                                      task_completedAt := Some now \<rparr>)] \<rparr>
      | Inl e \<Rightarrow>
          (case errorMessage e of
             Inl e' \<Rightarrow> q
           | Inr m \<Rightarrow>
               q\<lparr> tq_emitted := tq_emitted q @
                     [task_failed (tk\<lparr> task_status := t_failed, task_error := Some m,
                                        task_failedAt := Some now \<rparr>)] \<rparr>))"

definition processTask_finish :: "environment \<Rightarrow> nat \<Rightarrow> nat \<Rightarrow> task_queue \<Rightarrow> task_queue" where
  "processTask_finish env i now q =
     (if i < length (inflight q)
      then
        let tk = inflight q ! i;
            q' = taskSettled env tk now q
        in q'\<lparr> activeJobs := setDelete (task_id tk) (activeJobs q'),
               inflight := take i (inflight q') @ drop (Suc i) (inflight q') \<rparr>
      else q)"

record queue_status =
  queued :: nat
  active :: nat
  qs_processing :: bool

definition getQueueStatus :: "task_queue \<Rightarrow> queue_status" where
  "getQueueStatus q = \<lparr> queued = length (queue q), active = length (activeJobs q),
                         qs_processing = processing q \<rparr>"

text \<open>
  What can happen to a queue, in any order: a task is added, \<open>startProcessing\<close> or \<open>stop\<close>
  is called, a running loop makes a pass, a task in flight settles.
\<close>

datatype action = AddTask raw_task nat | StartProcessing | Stop | Pass nat | Settle nat nat

fun act :: "environment \<Rightarrow> action \<Rightarrow> task_queue \<Rightarrow> task_queue" where
  "act env (AddTask raw now) q = snd (addTask env raw now q)"
| "act env StartProcessing q = (if processing q then q else q\<lparr> processing := True \<rparr>)"
| "act env Stop q = q\<lparr> processing := False \<rparr>"
| "act env (Pass now) q = (if processing q then loopBody now q else q)"
| "act env (Settle i now) q = processTask_finish env i now q"

fun runQueue :: "environment \<Rightarrow> action list \<Rightarrow> task_queue \<Rightarrow> task_queue" where
  "runQueue env [] q = q"
| "runQueue env (a # as) q = runQueue env as (act env a q)"

section \<open>Stub providers and sample inputs\<close>

text \<open>
  Providers that succeed, as the mocks of the test suite do, and a planning provider
  whose answer is not JSON.
\<close>

definition resolvesWith :: "nat \<Rightarrow> json \<Rightarrow> invocation list \<Rightarrow> json list \<Rightarrow> json promise" where
  "resolvesWith d v earlier args = Settles d (Inr v)"

definition stubTaskMaster :: provider where
  "stubTaskMaster op =
     (if op = generatePlan then Some (resolvesWith 5 (JStr ''not json''))
      else if op = analyzeRequirements
      then Some (resolvesWith 10 (JObj [(''requirements'', JStr ''mock requirements'')]))
      else if op = generateCode then Some (resolvesWith 20 (JObj [(''files'', JArr [])]))
      else None)"

definition stubPlaywright :: provider where
  "stubPlaywright op =
     (if op = runTests then Some (resolvesWith 30 (JObj [(''passed'', JNum 1), (''failed'', JNum 0)]))
      else None)"

definition stubGithub :: provider where
  "stubGithub op =
     (if op = commitChanges then Some (resolvesWith 15 (JObj [(''sha'', JStr ''mock-sha'')]))
      else None)"

text \<open>The values \<open>JSON.parse\<close> gives on a few texts; it throws on the others used here.\<close>

definition sampleParse :: "string \<Rightarrow> json option" where
  "sampleParse src =
     (if src = ''{}'' then Some (JObj [])
      else if src = ''[]'' then Some (JArr [])
      else if src = ''null'' then Some JNull
      else None)"

definition stubEnv :: environment where
  "stubEnv =
     \<lparr> JSON_parse = sampleParse,
       uuidv4 = (\<lambda>n. ''uuid-'' @ decimal n),
       stringToNumber = (\<lambda>v. None),
       formatNumber = (\<lambda>n. ''1e+21''),
       integrations = (\<lambda>key. if key = ''taskMaster'' then Some stubTaskMaster
                              else if key = ''playwright'' then Some stubPlaywright
                              else if key = ''github'' then Some stubGithub
                              else None) \<rparr>"

text \<open>
  \<open>GitHubIntegration.generateCode\<close> of github-integration.js: it hands \<open>parameters.files\<close>
  back as \<open>files\<close>.
\<close>

definition argument :: "json list \<Rightarrow> nat \<Rightarrow> json" where
  "argument args i = (if i < length args then args ! i else JUndefined)"

definition GitHub_generateCode :: "invocation list \<Rightarrow> json list \<Rightarrow> json promise" where
  "GitHub_generateCode earlier args =
     (let instr = argument args 0;
          parameters = (if argument args 1 = JUndefined then JObj [] else argument args 1)
      in case get_prop parameters ''files'' of
           Inl e \<Rightarrow> Rejected e
         | Inr files \<Rightarrow>
             Settles 0 (Inr (JObj [(''files'', js_or files (JArr [])),
                                   (''changes'', js_or (readProp parameters ''changes'') (JArr [])),
                                   (''newFiles'', js_or (readProp parameters ''newFiles'') (JArr [])),
                                   (''instruction'', instr)])))"

definition githubEnv :: environment where
  "githubEnv =
     stubEnv\<lparr> integrations :=
                (\<lambda>key. if key = ''github''
                        then Some (\<lambda>op. if op = generateCode then Some GitHub_generateCode else None)
                        else None) \<rparr>"

text \<open>A raw plan whose only step asks for a zero timeout and for no retry.\<close>

definition zeroStep :: json where
  "zeroStep = JObj [(''id'', JStr ''s1''), (''type'', JStr ''analyze''),
                    (''integration'', JStr ''taskMaster''),
                    (''timeout'', JNum 0), (''retryCount'', JNum 0)]"

definition zeroStepPlan :: json where
  "zeroStepPlan = JObj [(''steps'', JArr [zeroStep])]"

definition zeroStepValidated :: plan where
  "zeroStepValidated =
     \<lparr> plan_steps = [\<lparr> step_id = JStr ''s1'', step_type = JStr ''analyze'',
                        step_description = JUndefined, step_integration = JStr ''taskMaster'',
                        step_parameters = JObj [], step_timeout = JNum 60000,
                        step_retryCount = JNum 2 \<rparr>],
       estimatedDuration = JNum 300, priority = JStr ''medium'',
       dependencies = JArr [], rollbackStrategy = JStr ''automatic'' \<rparr>"

text \<open>
  The state in which \<open>execute\<close> enters its loop when \<open>executePlanned\<close> has attached the
  plan: the workflow is running, registered with the executor, and announced.
\<close>

definition loopEntry :: "nat \<Rightarrow> plan \<Rightarrow> state \<Rightarrow> state" where
  "loopEntry w pl s =
     (let s' = modify w (\<lambda>workflow. workflow\<lparr> wf_plan := Some pl, status := running \<rparr>) s;
          wid = wf_id (heap s' ! w)
      in emit (workflow_started wid (Some pl))
           (s'\<lparr> runningWorkflows := AList.update wid w (runningWorkflows s') \<rparr>))"

text \<open>A provider call is slow for a timeout when it settles later than that, or never.\<close>

fun slowerThan :: "nat \<Rightarrow> 'a promise \<Rightarrow> bool" where
  "slowerThan t Pending = True"
| "slowerThan t (Settles d r) = (t < d)"
| "slowerThan t (Rejected e) = False"

text \<open>An initialized engine that holds one workflow, still pending.\<close>

definition pendingWorkflow :: workflow where
  "pendingWorkflow =
     \<lparr> wf_id = ''wf-1'', instruction = JStr ''add a health endpoint'', options = JObj [],
       status = pending, createdAt = 0, wf_steps = [], wf_plan = None, wf_result = None,
       wf_error = None, completedAt = None, failedAt = None, cancelledAt = None \<rparr>"

definition pendingState :: state where
  "pendingState = (initialize newEngine)\<lparr> heap := [pendingWorkflow], activeWorkflows := [(''wf-1'', 0)] \<rparr>"

text \<open>Sample plans, and providers that throw, answer late, or hand back what they were given.\<close>

definition rejectsWith :: "nat \<Rightarrow> js_error \<Rightarrow> invocation list \<Rightarrow> json list \<Rightarrow> json promise" where
  "rejectsWith d e earlier args = Settles d (Inl e)"

definition sampleStep :: "string \<Rightarrow> string \<Rightarrow> string \<Rightarrow> json \<Rightarrow> int \<Rightarrow> step" where
  "sampleStep i ty integ ps tmo =
     \<lparr> step_id = JStr i, step_type = JStr ty, step_description = JUndefined,
       step_integration = JStr integ, step_parameters = ps, step_timeout = JNum tmo,
       step_retryCount = JNum 2 \<rparr>"

definition planOf :: "step list \<Rightarrow> plan" where
  "planOf sts = \<lparr> plan_steps = sts, estimatedDuration = JNum 300, priority = JStr ''medium'',
                   dependencies = JArr [], rollbackStrategy = JStr ''automatic'' \<rparr>"

definition analyzeStep :: step where
  "analyzeStep = sampleStep ''s1'' ''analyze'' ''taskMaster'' (JObj []) 30000"

definition testStep :: step where
  "testStep = sampleStep ''s2'' ''run_tests'' ''playwright'' (JObj []) 180000"

definition commitStep :: step where
  "commitStep = sampleStep ''s3'' ''commit_changes'' ''github'' (JObj []) 30000"

definition threeStepPlan :: plan where
  "threeStepPlan = planOf [analyzeStep, testStep, commitStep]"

definition crashingEnv :: environment where
  "crashingEnv =
     stubEnv\<lparr> integrations :=
       (\<lambda>key. if key = ''playwright''
                then Some (\<lambda>op. if op = runTests then Some (rejectsWith 7 (Error ''browser crashed''))
                                else None)
                else integrations stubEnv key) \<rparr>"

definition slowEnv :: environment where
  "slowEnv =
     stubEnv\<lparr> integrations :=
       (\<lambda>key. if key = ''playwright''
                then Some (\<lambda>op. if op = runTests
                                then Some (resolvesWith 200000 (JObj [(''passed'', JNum 1), (''failed'', JNum 0)]))
                                else None)
                else integrations stubEnv key) \<rparr>"

definition filesObjectStep :: step where
  "filesObjectStep =
     sampleStep ''g1'' ''generate_code'' ''github''
       (JObj [(''files'', JObj [(''src/health.js'', JStr ''export default 1'')])]) 60000"

definition filesObjectPlan :: plan where
  "filesObjectPlan = planOf [filesObjectStep]"

text \<open>
  The state in which \<open>executeWorkflow\<close> starts planning: the new workflow, pending, is in
  the heap and in the registry.
\<close>

definition registered :: "environment \<Rightarrow> json \<Rightarrow> json \<Rightarrow> state \<Rightarrow> state" where
  "registered env instr opts s =
     s\<lparr> uuids := Suc (uuids s),
        heap := heap s @
          [\<lparr> wf_id = uuidv4 env (uuids s), instruction = instr, options = opts, status = pending,
             createdAt = clock s, wf_steps = [], wf_plan = None, wf_result = None,
             wf_error = None, completedAt = None, failedAt = None, cancelledAt = None \<rparr>],
        activeWorkflows := AList.update (uuidv4 env (uuids s)) (length (heap s)) (activeWorkflows s) \<rparr>"

text \<open>The options \<open>executeWorkflow\<close> works with: an empty object when none are given.\<close>

definition givenOptions :: "json \<Rightarrow> json" where
  "givenOptions options0 = (if options0 = JUndefined then JObj [] else options0)"

text \<open>What planning does for \<open>executeWorkflow\<close>, and the state it leaves.\<close>

definition planning :: "environment \<Rightarrow> json \<Rightarrow> json \<Rightarrow> state \<Rightarrow> plan outcome \<times> state" where
  "planning env instr options0 s =
     createWorkflowPlan env instr (givenOptions options0)
       (registered env instr (givenOptions options0) s)"


text \<open>A planning provider that is out of service, as in the test suite.\<close>

definition unavailableEnv :: environment where
  "unavailableEnv =
     stubEnv\<lparr> integrations :=
       (\<lambda>key. if key = ''taskMaster''
               then Some (\<lambda>op. if op = generatePlan
                               then Some (rejectsWith 3 (Error ''AI service unavailable''))
                               else None)
               else integrations stubEnv key) \<rparr>"

text \<open>A provider whose test run rejects with \<open>null\<close>, and an instruction without a string.\<close>

definition nullRejectEnv :: environment where
  "nullRejectEnv =
     stubEnv\<lparr> integrations :=
       (\<lambda>key. if key = ''playwright''
               then Some (\<lambda>op. if op = runTests then Some (rejectsWith 7 (Thrown JNull)) else None)
               else integrations stubEnv key) \<rparr>"

definition noStringInstruction :: json where
  "noStringInstruction = JObj [(''toString'', JNum 1)]"

text \<open>The engine of \<open>pendingState\<close> once its workflow is running in the executor.\<close>

definition runningState :: state where
  "runningState =
     pendingState\<lparr> heap := [pendingWorkflow\<lparr> wf_plan := Some threeStepPlan, status := running \<rparr>],
                    runningWorkflows := [(''wf-1'', 0)] \<rparr>"

text \<open>A burst of four tasks for a queue that is processing, and four passes of its loop.\<close>

definition rawTask :: "string \<Rightarrow> raw_task" where
  "rawTask i = \<lparr> raw_id = JStr i, raw_type = JStr ''code_analysis'', raw_data = JObj [] \<rparr>"

definition burst :: "action list" where
  "burst = [StartProcessing,
            AddTask (rawTask ''t1'') 1, AddTask (rawTask ''t2'') 2,
            AddTask (rawTask ''t3'') 3, AddTask (rawTask ''t4'') 4,
            Pass 100, Pass 200, Pass 300, Pass 400]"

section \<open>Plan normalization: what it guarantees\<close>

lemma validateStep_cases:
  "validateStep p s n = (r, n') \<Longrightarrow>
     (nullish s \<and> (\<exists>e. r = Inl e)) \<or>
     (\<not> nullish s \<and> (\<exists>st. r = Inr st
         \<and> step_timeout st = js_or (readProp s ''timeout'') (JNum 60000)
         \<and> step_retryCount st = js_or (readProp s ''retryCount'') (JNum 2)))"
  by (auto simp: validateStep_def get_prop_def Let_def split: if_splits)

lemma validateSteps_length:
  "validateSteps p raw n = (Inr sts, n') \<Longrightarrow> length sts = length raw"
  by (induction raw arbitrary: n sts n') (auto split: prod.splits sum.splits)

lemma validateSteps_nth:
  "validateSteps p raw n = (Inr sts, n') \<Longrightarrow> i < length raw \<Longrightarrow>
     step_timeout (sts ! i) = js_or (readProp (raw ! i) ''timeout'') (JNum 60000) \<and>
     step_retryCount (sts ! i) = js_or (readProp (raw ! i) ''retryCount'') (JNum 2)"
proof (induction raw arbitrary: n sts n' i)
  case Nil
  then show ?case by simp
next
  case (Cons r raw)
  from Cons.prems(1) obtain st n1 sts1 where
    h: "validateStep p r n = (Inr st, n1)" "validateSteps p raw n1 = (Inr sts1, n')" "sts = st # sts1"
    by (auto split: prod.splits sum.splits)
  show ?case
  proof (cases i)
    case 0
    with h validateStep_cases[OF h(1)] show ?thesis by auto
  next
    case (Suc j)
    with Cons.prems(2) have "j < length raw" by simp
    from Cons.IH[OF h(2) this] Suc h(3) show ?thesis by simp
  qed
qed

lemma createFallbackPlan_shape:
  "map step_type (plan_steps (fst (createFallbackPlan env n))) =
     [JStr ''analyze'', JStr ''generate_code'', JStr ''run_tests'', JStr ''commit_changes'']
   \<and> priority (fst (createFallbackPlan env n)) = JStr ''medium''"
  by (simp add: createFallbackPlan_def fallbackStep_def)

text \<open>
  Claim C3, as the code has it. \<open>parseWorkflowPlan\<close> never throws. When \<open>JSON.parse\<close>
  throws on the source, or gives \<open>null\<close>, the result is the fallback plan: four steps
  with fresh ids, of the types analyze, generate_code, run_tests, commit_changes in this
  order, and priority medium.
\<close>

theorem parseWorkflowPlan_fallback:
  "(\<exists>pl n'. parseWorkflowPlan env src n = (Inr pl, n')) \<and>
   (JSON_parse env src = None \<or> JSON_parse env src = Some JNull \<longrightarrow>
      parseWorkflowPlan env src n = (Inr (fst (createFallbackPlan env n)), n + 4) \<and>
      map step_type (plan_steps (fst (createFallbackPlan env n))) =
        [JStr ''analyze'', JStr ''generate_code'', JStr ''run_tests'', JStr ''commit_changes''] \<and>
      priority (fst (createFallbackPlan env n)) = JStr ''medium'')"
proof -
  have total: "\<exists>pl n'. parseWorkflowPlan env src n = (Inr pl, n')"
    by (auto simp: parseWorkflowPlan_def createFallbackPlan_def
             split: option.splits prod.splits sum.splits)
  have fb: "parseWorkflowPlan env src n = (Inr (fst (createFallbackPlan env n)), n + 4)"
    if "JSON_parse env src = None \<or> JSON_parse env src = Some JNull"
    using that
    by (auto simp: parseWorkflowPlan_def createFallbackPlan_def validateWorkflowPlan_def get_prop_def)
  from total fb createFallbackPlan_shape[of env n] show ?thesis by blast
qed

theorem parseWorkflowPlan_fallback_witness:
  "JSON_parse stubEnv ''not json'' = None \<and>
   parseWorkflowPlan stubEnv ''not json'' 0 = (Inr (fst (createFallbackPlan stubEnv 0)), 4) \<and>
   map step_type (plan_steps (fst (createFallbackPlan stubEnv 0))) =
     [JStr ''analyze'', JStr ''generate_code'', JStr ''run_tests'', JStr ''commit_changes'']"
proof -
  have h: "JSON_parse stubEnv ''not json'' = None"
    by (simp add: stubEnv_def sampleParse_def)
  with parseWorkflowPlan_fallback[of stubEnv "''not json''" 0] show ?thesis by simp
qed

text \<open>
  Claim C3 as stated fails: the text \<open>[]\<close> parses to an array, which is no object with a
  steps sequence, and the result is a plan without steps, not the fallback plan.
\<close>

theorem parseWorkflowPlan_array_counterexample:
  "JSON_parse stubEnv ''[]'' = Some (JArr []) \<and>
   parseWorkflowPlan stubEnv ''[]'' 0 =
     (Inr \<lparr> plan_steps = [], estimatedDuration = JNum 300, priority = JStr ''medium'',
            dependencies = JArr [], rollbackStrategy = JStr ''automatic'' \<rparr>, 0) \<and>
   fst (parseWorkflowPlan stubEnv ''[]'' 0) \<noteq> Inr (fst (createFallbackPlan stubEnv 0))"
  by (simp add: stubEnv_def sampleParse_def parseWorkflowPlan_def validateWorkflowPlan_def
        get_prop_def js_or_def createFallbackPlan_def)

text \<open>
  Claim C9, as the code has it. The plan \<open>parseWorkflowPlan\<close> returns has no step exactly
  when the source parses to a value other than \<open>null\<close> whose \<open>steps\<close> property is not an
  array or is the empty array; every other plan has at least one step.
\<close>

theorem parseWorkflowPlan_empty_iff:
  assumes "parseWorkflowPlan env src n = (Inr pl, n')"
  shows "plan_steps pl = [] \<longleftrightarrow>
     (\<exists>v. JSON_parse env src = Some v \<and> \<not> nullish v \<and>
          (\<not> isArray (readProp v ''steps'') \<or> readProp v ''steps'' = JArr []))"
proof (cases "JSON_parse env src")
  case None
  with assms show ?thesis by (auto simp: parseWorkflowPlan_def createFallbackPlan_def)
next
  case (Some v)
  show ?thesis
  proof (cases "nullish v")
    case True
    with Some assms show ?thesis
      by (auto simp: parseWorkflowPlan_def createFallbackPlan_def validateWorkflowPlan_def get_prop_def)
  next
    case False
    show ?thesis
    proof (cases "readProp v ''steps''")
      case (JArr raw)
      show ?thesis
      proof (cases "validateSteps env raw n")
        case (Pair r n1)
        show ?thesis
        proof (cases r)
          case (Inl e)
          then have "raw \<noteq> []" using Pair by auto
          with Some False JArr Pair Inl assms show ?thesis
            by (auto simp: parseWorkflowPlan_def createFallbackPlan_def validateWorkflowPlan_def
                  get_prop_def Let_def)
        next
          case (Inr sts)
          with Pair have "length sts = length raw" by (simp add: validateSteps_length)
          with Some False JArr Pair Inr assms show ?thesis
            by (auto simp: parseWorkflowPlan_def validateWorkflowPlan_def get_prop_def Let_def)
        qed
      qed
    qed (use Some False assms in
          \<open>auto simp: parseWorkflowPlan_def validateWorkflowPlan_def get_prop_def Let_def\<close>)
  qed
qed

theorem parseWorkflowPlan_empty_iff_witness:
  "parseWorkflowPlan stubEnv ''null'' 0 = (Inr (fst (createFallbackPlan stubEnv 0)), 4) \<and>
   plan_steps (fst (createFallbackPlan stubEnv 0)) \<noteq> [] \<and>
   \<not> (\<exists>v. JSON_parse stubEnv ''null'' = Some v \<and> \<not> nullish v \<and>
          (\<not> isArray (readProp v ''steps'') \<or> readProp v ''steps'' = JArr []))"
proof -
  have h: "parseWorkflowPlan stubEnv ''null'' 0 = (Inr (fst (createFallbackPlan stubEnv 0)), 4)"
    by (simp add: stubEnv_def sampleParse_def parseWorkflowPlan_def validateWorkflowPlan_def
          get_prop_def createFallbackPlan_def)
  have "plan_steps (fst (createFallbackPlan stubEnv 0)) \<noteq> []"
    by (simp add: createFallbackPlan_def)
  with h parseWorkflowPlan_empty_iff[OF h] show ?thesis by simp
qed

text \<open>
  Claim C9 as stated fails: the text \<open>{}\<close> parses to an object that carries no steps, and
  the plan made from it has no step.
\<close>

theorem parseWorkflowPlan_no_steps_counterexample:
  "JSON_parse stubEnv ''{}'' = Some (JObj []) \<and>
   (case fst (parseWorkflowPlan stubEnv ''{}'' 0) of
      Inr pl \<Rightarrow> length (plan_steps pl) = 0
    | Inl e \<Rightarrow> False)"
  by (simp add: stubEnv_def sampleParse_def parseWorkflowPlan_def validateWorkflowPlan_def
        get_prop_def js_or_def)

text \<open>
  Claim C10. In a validated plan, a step whose raw \<open>timeout\<close> is falsy (0, \<open>null\<close>,
  \<open>false\<close>, the empty string, or absent) has timeout 60000, and one whose raw
  \<open>retryCount\<close> is falsy has retryCount 2: a zero given by the caller is not kept.
\<close>

theorem validateWorkflowPlan_falsy_defaults:
  assumes "validateWorkflowPlan env pl n = (Inr vp, n')"
    and "readProp pl ''steps'' = JArr raw"
    and "i < length raw"
  shows "(\<not> truthy (readProp (raw ! i) ''timeout'') \<longrightarrow> step_timeout (plan_steps vp ! i) = JNum 60000) \<and>
         (\<not> truthy (readProp (raw ! i) ''retryCount'') \<longrightarrow> step_retryCount (plan_steps vp ! i) = JNum 2)"
proof -
  from assms(1,2) obtain sts where
    h: "validateSteps env raw n = (Inr sts, n')" "plan_steps vp = sts"
    by (auto simp: validateWorkflowPlan_def Let_def split: sum.splits prod.splits)
  from validateSteps_nth[OF h(1) assms(3)] h(2) show ?thesis
    by (simp add: js_or_def)
qed

theorem validateWorkflowPlan_falsy_defaults_witness:
  "validateWorkflowPlan stubEnv zeroStepPlan 0 = (Inr zeroStepValidated, 0) \<and>
   readProp zeroStepPlan ''steps'' = JArr [zeroStep] \<and>
   readProp zeroStep ''timeout'' = JNum 0 \<and> readProp zeroStep ''retryCount'' = JNum 0 \<and>
   step_timeout (plan_steps zeroStepValidated ! 0) = JNum 60000 \<and>
   step_retryCount (plan_steps zeroStepValidated ! 0) = JNum 2"
proof -
  have h1: "validateWorkflowPlan stubEnv zeroStepPlan 0 = (Inr zeroStepValidated, 0)"
    by (simp add: zeroStepPlan_def zeroStep_def zeroStepValidated_def validateWorkflowPlan_def
          validateStep_def get_prop_def js_or_def)
  have h2: "readProp zeroStepPlan ''steps'' = JArr [zeroStep]"
    by (simp add: zeroStepPlan_def)
  have h3: "0 < length [zeroStep]" by simp
  have h4: "readProp zeroStep ''timeout'' = JNum 0 \<and> readProp zeroStep ''retryCount'' = JNum 0"
    by (simp add: zeroStep_def)
  from validateWorkflowPlan_falsy_defaults[OF h1 h2 h3] h1 h2 h4 show ?thesis by simp
qed

section \<open>The executor: what a step and the loop leave behind\<close>

lemma invoke_frame:
  "invoke callee integ op args s = (pr, s') \<Longrightarrow>
     heap s' = heap s \<and> activeWorkflows s' = activeWorkflows s \<and>
     runningWorkflows s' = runningWorkflows s \<and> metrics s' = metrics s \<and>
     uuids s' = uuids s \<and> emitted s' = emitted s \<and> isInitialized s' = isInitialized s \<and>
     clock s' = clock s \<and>
     (calls s' = calls s \<or> calls s' = calls s @ [(op, args)])"
  by (auto simp: invoke_def split: option.splits)

lemma runStepWithIntegration_frame:
  "runStepWithIntegration env ty nm ps workflow s = (pr, s') \<Longrightarrow>
     heap s' = heap s \<and> activeWorkflows s' = activeWorkflows s \<and>
     runningWorkflows s' = runningWorkflows s \<and> metrics s' = metrics s \<and>
     uuids s' = uuids s \<and> emitted s' = emitted s \<and> isInitialized s' = isInitialized s \<and>
     clock s' = clock s \<and>
     (calls s' = calls s \<or> (\<exists>c. calls s' = calls s @ [c]))"
  unfolding runStepWithIntegration_def handleAnalyzeStep_def handleGenerateCodeStep_def
    handleRunTestsStep_def handleCommitChangesStep_def handleMonitorStep_def handleDeployStep_def
  by (auto split: option.splits if_splits prod.splits sum.splits dest!: invoke_frame)

lemma executeStep_frame:
  "executeStep env st workflow s = (r, s') \<Longrightarrow>
     heap s' = heap s \<and> activeWorkflows s' = activeWorkflows s \<and>
     runningWorkflows s' = runningWorkflows s \<and> metrics s' = metrics s \<and>
     uuids s' = uuids s \<and> emitted s' = emitted s \<and> isInitialized s' = isInitialized s \<and>
     (calls s' = calls s \<or> (\<exists>c. calls s' = calls s @ [c]))"
  unfolding executeStep_def timerFires_def
  by (auto split: prod.splits promise.splits if_splits sum.splits dest!: runStepWithIntegration_frame)

lemma attemptStep_frame:
  "attemptStep env st workflow s = (r, s') \<Longrightarrow>
     heap s' = heap s \<and> activeWorkflows s' = activeWorkflows s \<and>
     runningWorkflows s' = runningWorkflows s \<and> metrics s' = metrics s \<and>
     uuids s' = uuids s \<and> emitted s' = emitted s \<and> isInitialized s' = isInitialized s \<and>
     (calls s' = calls s \<or> (\<exists>c. calls s' = calls s @ [c]))"
  unfolding attemptStep_def
  by (auto split: sum.splits dest!: executeStep_frame)



lemma runSteps_append:
  "runSteps env w (xs @ ys) rs s =
     (case runSteps env w xs rs s of
        ((Resolves u, rs'), s') \<Rightarrow> runSteps env w ys rs' s'
      | ((Rejects e, rs'), s') \<Rightarrow> ((Rejects e, rs'), s')
      | ((NeverSettles, rs'), s') \<Rightarrow> ((NeverSettles, rs'), s'))"
  by (induction xs arbitrary: rs s) (auto split: prod.splits outcome.splits)


text \<open>
  The loop only appends to the step log of its own workflow: one entry, marked
  completed, for each step that succeeded, and nothing for the step that threw.
\<close>

lemma runSteps_log:
  assumes "runSteps env w sts rs s = ((r, rs'), s')" and "w < length (heap s)"
  shows "\<exists>entries.
           heap s' = (heap s)[w := (heap s ! w)\<lparr> wf_steps := wf_steps (heap s ! w) @ entries \<rparr>] \<and>
           rs' = rs @ map es_result entries \<and>
           (\<forall>x \<in> set entries. es_status x = completed) \<and>
           map es_step entries = take (length entries) sts \<and>
           (r = Resolves () \<longrightarrow> length entries = length sts) \<and>
           (r \<noteq> Resolves () \<longrightarrow> length entries < length sts) \<and>
           activeWorkflows s' = activeWorkflows s \<and> runningWorkflows s' = runningWorkflows s \<and>
           metrics s' = metrics s \<and> uuids s' = uuids s \<and> emitted s' = emitted s \<and>
           isInitialized s' = isInitialized s \<and>
           length (calls s') \<le> length (calls s) + length sts"
  using assms
proof (induction sts arbitrary: rs s)
  case Nil
  then show ?case by (intro exI[of _ "[]"]) (auto simp: list_update_same_conv)
next
  case (Cons st sts)
  obtain r1 s1 where e1: "attemptStep env st (heap s ! w) s = (r1, s1)"
    by (cases "attemptStep env st (heap s ! w) s")
  note fr = attemptStep_frame[OF e1]
  show ?case
  proof (cases r1)
    case (Rejects e)
    with Cons.prems e1 have "r = Rejects e" "rs' = rs" "s' = s1" by auto
    with fr Cons.prems(2) show ?thesis
      by (intro exI[of _ "[]"]) (auto simp: list_update_same_conv)
  next
    case NeverSettles
    with Cons.prems e1 have "r = NeverSettles" "rs' = rs" "s' = s1" by auto
    with fr Cons.prems(2) show ?thesis
      by (intro exI[of _ "[]"]) (auto simp: list_update_same_conv)
  next
    case (Resolves res)
    define ent where "ent = \<lparr> es_step = st, es_status = completed, es_result = res, executedAt = clock s1 \<rparr>"
    define s2 where "s2 = modify w (\<lambda>workflow. workflow\<lparr> wf_steps := wf_steps workflow @ [ent] \<rparr>) s1"
    from Cons.prems(1) e1 Resolves have run: "runSteps env w sts (rs @ [res]) s2 = ((r, rs'), s')"
      by (simp add: s2_def ent_def)
    have len2: "w < length (heap s2)" using Cons.prems(2) fr by (simp add: s2_def modify_def)
    from Cons.IH[OF run len2] obtain entries where
      ih: "heap s' = (heap s2)[w := (heap s2 ! w)\<lparr> wf_steps := wf_steps (heap s2 ! w) @ entries \<rparr>]"
          "rs' = (rs @ [res]) @ map es_result entries"
          "\<forall>x \<in> set entries. es_status x = completed"
          "map es_step entries = take (length entries) sts"
          "r = Resolves () \<longrightarrow> length entries = length sts"
          "r \<noteq> Resolves () \<longrightarrow> length entries < length sts"
          "activeWorkflows s' = activeWorkflows s2" "runningWorkflows s' = runningWorkflows s2"
          "metrics s' = metrics s2" "uuids s' = uuids s2" "emitted s' = emitted s2"
          "isInitialized s' = isInitialized s2"
          "length (calls s') \<le> length (calls s2) + length sts"
      by blast
    have h2: "heap s2 = (heap s)[w := (heap s ! w)\<lparr> wf_steps := wf_steps (heap s ! w) @ [ent] \<rparr>]"
      using fr by (simp add: s2_def modify_def)
    have rest: "activeWorkflows s2 = activeWorkflows s" "runningWorkflows s2 = runningWorkflows s"
      "metrics s2 = metrics s" "uuids s2 = uuids s" "emitted s2 = emitted s"
      "isInitialized s2 = isInitialized s" "calls s2 = calls s1"
      using fr by (simp_all add: s2_def modify_def)
    have c1: "length (calls s1) \<le> length (calls s) + 1" using fr by auto
    show ?thesis
    proof (intro exI[of _ "ent # entries"] conjI)
      show "heap s' = (heap s)[w := (heap s ! w)\<lparr> wf_steps := wf_steps (heap s ! w) @ ent # entries \<rparr>]"
        using ih(1) h2 Cons.prems(2) by simp
      show "rs' = rs @ map es_result (ent # entries)" using ih(2) by (simp add: ent_def)
      show "\<forall>x \<in> set (ent # entries). es_status x = completed" using ih(3) by (simp add: ent_def)
      show "map es_step (ent # entries) = take (length (ent # entries)) (st # sts)"
        using ih(4) by (simp add: ent_def)
      show "r = Resolves () \<longrightarrow> length (ent # entries) = length (st # sts)" using ih(5) by simp
      show "r \<noteq> Resolves () \<longrightarrow> length (ent # entries) < length (st # sts)" using ih(6) by simp
      show "length (calls s') \<le> length (calls s) + length (st # sts)"
        using ih(13) rest(7) c1 by simp
    qed (use ih rest in simp_all)
  qed
qed

text \<open>\<open>executePlanned\<close>, seen from the state in which the loop is entered.\<close>

lemma executePlanned_unfold:
  assumes "w < length (heap s)"
  shows "executePlanned env w wid pl s =
     (let w_id = wf_id (heap s ! w) in
      case (case runSteps env w (plan_steps pl) [] (loopEntry w pl s) of
              ((Rejects e, results), s3) \<Rightarrow> failWith w_id e results (length (plan_steps pl)) s3
            | ((NeverSettles, results), s3) \<Rightarrow> (NeverSettles, s3)
            | ((Resolves u, results), s3) \<Rightarrow>
                (case generateSummary results of
                   Inl e \<Rightarrow> failWith w_id e results (length (plan_steps pl)) s3
                 | Inr sm \<Rightarrow>
                     let finalResult = \<lparr> fr_workflowId = w_id, fr_status = completed,
                                          fr_steps = results, fr_summary = sm \<rparr>;
                         s4 = emit (workflow_completed finalResult) s3
                     in (Resolves finalResult,
                         s4\<lparr> runningWorkflows := AList.delete w_id (runningWorkflows s4) \<rparr>))) of
        (Rejects e, s') \<Rightarrow> failWorkflow w wid e s'
      | (NeverSettles, s') \<Rightarrow> (NeverSettles, s')
      | (Resolves result, s') \<Rightarrow>
          (Resolves \<lparr> success = True, workflowId = wid, env_result = Some result, env_error = None \<rparr>,
           modify w (\<lambda>workflow. workflow\<lparr> status := completed, wf_result := Some result,
                                           completedAt := Some (clock s') \<rparr>) s'))"
proof -
  have le: "loopEntry w pl s =
      emit (workflow_started (wf_id (heap s ! w)) (Some pl))
        ((modify w (\<lambda>workflow. workflow\<lparr> wf_plan := Some pl, status := running \<rparr>) s)
           \<lparr> runningWorkflows := AList.update (wf_id (heap s ! w)) w (runningWorkflows s) \<rparr>)"
    using assms by (simp add: loopEntry_def modify_def Let_def)
  obtain r rs s3 where run: "runSteps env w (plan_steps pl) [] (loopEntry w pl s) = ((r, rs), s3)"
    by (metis surj_pair)
  show ?thesis
    using assms run unfolding le
    by (cases r; cases "generateSummary rs")
       (simp_all add: executePlanned_def execute_def modify_def Let_def)
qed

lemma errorMessage_of_thrown:
  "errorMessage e = Inl e' \<Longrightarrow> \<exists>m. errorMessage e' = Inr (JStr m)"
  by (cases e) (auto simp: get_prop_def split: if_splits)

text \<open>
  When the steps before step k succeed and step k throws: the envelope reports an
  error, the workflow is failed, its log holds the entries of the steps before k only,
  and no provider is called after step k. When the message of what was thrown can be
  read, it is the error reported, a \<open>workflow:failed\<close> event is emitted and the workflow
  leaves the registry; when it cannot (step k rejected with \<open>null\<close> or \<open>undefined\<close>), the
  error reported is that of reading it, and no such event is emitted.
\<close>

lemma executePlanned_step_fails:
  assumes w: "w < length (heap s)"
    and pl: "plan_steps pl = pre @ st # post"
    and pre: "runSteps env w pre [] (loopEntry w pl s) = ((Resolves (), rs), s1)"
    and st: "attemptStep env st (heap s1 ! w) s1 = (Rejects e, s2)"
  shows "\<exists>s' entries err.
           executePlanned env w wid pl s =
             (Resolves \<lparr> success = False, workflowId = wid, env_result = None,
                         env_error = Some err \<rparr>, s') \<and>
           status (heap s' ! w) = failed \<and>
           wf_error (heap s' ! w) = Some err \<and>
           wf_steps (heap s' ! w) = wf_steps (heap s ! w) @ entries \<and>
           map es_step entries = pre \<and>
           (\<forall>x \<in> set entries. es_status x = completed) \<and>
           calls s' = calls s2 \<and>
           length (calls s') \<le> length (calls s) + length pre + 1 \<and>
           (\<forall>m. errorMessage e = Inr m \<longrightarrow>
                err = m \<and>
                map_of (activeWorkflows s') (wf_id (heap s ! w)) = None \<and>
                emitted s' = emitted s @
                  [workflow_started (wf_id (heap s ! w)) (Some pl),
                   workflow_failed \<lparr> fl_workflowId = wf_id (heap s ! w), fl_status = failed,
                                     fl_error = m, fl_completedSteps = length pre,
                                     fl_totalSteps = length pre + 1 + length post \<rparr>]) \<and>
           (\<forall>e'. errorMessage e = Inl e' \<longrightarrow>
                errorMessage e' = Inr err \<and>
                emitted s' = emitted s @ [workflow_started (wf_id (heap s ! w)) (Some pl)])"
proof -
  have w0: "w < length (heap (loopEntry w pl s))"
    using w by (simp add: loopEntry_def modify_def Let_def)
  from runSteps_log[OF pre w0] obtain entries where
    lg: "heap s1 = (heap (loopEntry w pl s))[w := (heap (loopEntry w pl s) ! w)
            \<lparr> wf_steps := wf_steps (heap (loopEntry w pl s) ! w) @ entries \<rparr>]"
        "rs = [] @ map es_result entries"
        "\<forall>x \<in> set entries. es_status x = completed"
        "map es_step entries = take (length entries) pre"
        "length entries = length pre"
        "activeWorkflows s1 = activeWorkflows (loopEntry w pl s)"
        "emitted s1 = emitted (loopEntry w pl s)"
        "length (calls s1) \<le> length (calls (loopEntry w pl s)) + length pre"
    by blast
  note fr = attemptStep_frame[OF st]
  have run: "runSteps env w (pre @ st # post) [] (loopEntry w pl s) = ((Rejects e, rs), s2)"
    using pre st by (simp add: runSteps_append)
  have le: "heap (loopEntry w pl s) = (heap s)[w := (heap s ! w)\<lparr> wf_plan := Some pl, status := running \<rparr>]"
    "calls (loopEntry w pl s) = calls s"
    "emitted (loopEntry w pl s) = emitted s @ [workflow_started (wf_id (heap s ! w)) (Some pl)]"
    using w by (simp_all add: loopEntry_def modify_def Let_def)
  have c2: "length (calls s2) \<le> length (calls s) + length pre + 1"
    using fr lg(8) le(2) by auto
  have lenrs: "length rs = length pre" using lg(2,5) by simp
  have ents: "map es_step entries = pre" using lg(4,5) by simp
  have hs2: "heap s2 = (heap s)[w := (heap s ! w)\<lparr> wf_plan := Some pl, status := running,
                wf_steps := wf_steps (heap s ! w) @ entries \<rparr>]"
    using fr lg(1) le(1) w by simp
  have em2: "emitted s2 = emitted s @ [workflow_started (wf_id (heap s ! w)) (Some pl)]"
    using fr lg(7) le(3) by simp
  show ?thesis
  proof (cases "errorMessage e")
    case (Inr m)
    define fl where "fl = \<lparr> fl_workflowId = wf_id (heap s ! w), fl_status = failed,
                            fl_error = m, fl_completedSteps = length pre,
                            fl_totalSteps = length pre + 1 + length post \<rparr>"
    define s3 where "s3 = (emit (workflow_failed fl) s2)
                            \<lparr> runningWorkflows := AList.delete (wf_id (heap s ! w))
                                                     (runningWorkflows (emit (workflow_failed fl) s2)) \<rparr>"
    define s' where "s' = modify w (\<lambda>workflow. workflow\<lparr> wf_error := Some m, failedAt := Some (clock s3) \<rparr>)
                            (modify w (\<lambda>workflow. workflow\<lparr> status := failed \<rparr>) s3)"
    have res: "executePlanned env w wid pl s =
                 (Resolves \<lparr> success = False, workflowId = wid, env_result = None,
                             env_error = Some m \<rparr>, s')"
      by (simp add: executePlanned_unfold[OF w] pl run failWith_def failWorkflow_def Let_def
            lenrs fl_def s3_def s'_def Inr)
    have h3: "heap s3 = heap s2" "calls s3 = calls s2"
      "activeWorkflows s3 = AList.delete (wf_id (heap s ! w)) (activeWorkflows s2)"
      "emitted s3 = emitted s2 @ [workflow_failed fl]"
      by (simp_all add: s3_def fl_def)
    have hw: "heap s' ! w = (heap s ! w)\<lparr> wf_plan := Some pl, status := running,
                 wf_steps := wf_steps (heap s ! w) @ entries, status := failed,
                 wf_error := Some m, failedAt := Some (clock s3) \<rparr>"
      using w by (simp add: s'_def modify_def h3 hs2)
    have "calls s' = calls s2" by (simp add: s'_def modify_def h3)
    moreover have "map_of (activeWorkflows s') (wf_id (heap s ! w)) = None"
      by (simp add: s'_def modify_def h3 AList.delete_eq map_of_eq_None_iff image_iff)
    moreover have "emitted s' = emitted s @ [workflow_started (wf_id (heap s ! w)) (Some pl), workflow_failed fl]"
      by (simp add: s'_def modify_def h3 em2)
    ultimately show ?thesis
      using res hw lg(3) ents c2 Inr unfolding fl_def
      by (intro exI[of _ s'] exI[of _ entries] exI[of _ m]) simp
  next
    case (Inl e')
    from errorMessage_of_thrown[OF Inl] obtain m where m: "errorMessage e' = Inr (JStr m)" by blast
    define s3 where "s3 = s2\<lparr> runningWorkflows := AList.delete (wf_id (heap s ! w)) (runningWorkflows s2) \<rparr>"
    define s' where "s' = modify w (\<lambda>workflow. workflow\<lparr> wf_error := Some (JStr m), failedAt := Some (clock s3) \<rparr>)
                            (modify w (\<lambda>workflow. workflow\<lparr> status := failed \<rparr>) s3)"
    have res: "executePlanned env w wid pl s =
                 (Resolves \<lparr> success = False, workflowId = wid, env_result = None,
                             env_error = Some (JStr m) \<rparr>, s')"
      by (simp add: executePlanned_unfold[OF w] pl run failWith_def failWorkflow_def Let_def
            s3_def s'_def Inl m)
    have h3: "heap s3 = heap s2" "calls s3 = calls s2" "emitted s3 = emitted s2"
      by (simp_all add: s3_def)
    have hw: "heap s' ! w = (heap s ! w)\<lparr> wf_plan := Some pl, status := running,
                 wf_steps := wf_steps (heap s ! w) @ entries, status := failed,
                 wf_error := Some (JStr m), failedAt := Some (clock s3) \<rparr>"
      using w by (simp add: s'_def modify_def h3 hs2)
    have "calls s' = calls s2" by (simp add: s'_def modify_def h3)
    moreover have "emitted s' = emitted s @ [workflow_started (wf_id (heap s ! w)) (Some pl)]"
      by (simp add: s'_def modify_def h3 em2)
    ultimately show ?thesis
      using res hw lg(3) ents c2 Inl m
      by (intro exI[of _ s'] exI[of _ entries] exI[of _ "JStr m"]) simp
  qed
qed

lemmas executor_defs =
  attemptStep_def stepLogLine_def executeStep_def timerFires_def timeoutMessage_def
  runStepWithIntegration_def handleAnalyzeStep_def handleGenerateCodeStep_def
  handleRunTestsStep_def handleCommitChangesStep_def handleMonitorStep_def handleDeployStep_def
  invoke_def timerDelay_def numberString_def get_prop_def js_or_def modify_def

lemmas sample_defs =
  stubEnv_def stubTaskMaster_def stubPlaywright_def stubGithub_def resolvesWith_def rejectsWith_def
  sampleParse_def crashingEnv_def slowEnv_def githubEnv_def unavailableEnv_def nullRejectEnv_def
  noStringInstruction_def GitHub_generateCode_def argument_def
  sampleStep_def planOf_def analyzeStep_def testStep_def commitStep_def threeStepPlan_def
  filesObjectStep_def filesObjectPlan_def pendingWorkflow_def pendingState_def
  newEngine_def initialize_def zeroMetrics_def

text \<open>
  Claim C2, as the code has it. The plan is \<open>pre @ st # post\<close>, with \<open>st\<close> its step k.
  When the steps before step k succeed and step k throws, \<open>executeWorkflow\<close>, from the
  moment it has the plan, answers with a failure envelope and the workflow is failed;
  its step log holds one completed entry for each of the k - 1 steps before k and no
  entry for step k; no provider is called after step k. When the message of what was
  thrown can be read, as it can of every \<open>Error\<close>, it is the workflow's \<open>error\<close> and a
  \<open>workflow:failed\<close> event carries it with \<open>completedSteps\<close> = k - 1 and
  \<open>totalSteps\<close> = N. When it cannot (the step rejected with \<open>null\<close> or \<open>undefined\<close>),
  the \<open>error\<close> is that of reading it and no \<open>workflow:failed\<close> event is emitted.
\<close>

theorem executePlanned_fail_fast:
  assumes "w < length (heap s)"
    and "plan_steps pl = pre @ st # post"
    and "runSteps env w pre [] (loopEntry w pl s) = ((Resolves (), rs), s1)"
    and "attemptStep env st (heap s1 ! w) s1 = (Rejects e, s2)"
  shows "\<exists>s' entries err.
           executePlanned env w wid pl s =
             (Resolves \<lparr> success = False, workflowId = wid, env_result = None,
                         env_error = Some err \<rparr>, s') \<and>
           status (heap s' ! w) = failed \<and>
           wf_error (heap s' ! w) = Some err \<and>
           wf_steps (heap s' ! w) = wf_steps (heap s ! w) @ entries \<and>
           map es_step entries = pre \<and>
           (\<forall>x \<in> set entries. es_status x = completed) \<and>
           calls s' = calls s2 \<and>
           length (calls s') \<le> length (calls s) + length pre + 1 \<and>
           (\<forall>m. errorMessage e = Inr m \<longrightarrow>
                err = m \<and>
                emitted s' = emitted s @
                  [workflow_started (wf_id (heap s ! w)) (Some pl),
                   workflow_failed \<lparr> fl_workflowId = wf_id (heap s ! w), fl_status = failed,
                                     fl_error = m, fl_completedSteps = length pre,
                                     fl_totalSteps = length pre + 1 + length post \<rparr>]) \<and>
           (\<forall>e'. errorMessage e = Inl e' \<longrightarrow>
                errorMessage e' = Inr err \<and>
                emitted s' = emitted s @ [workflow_started (wf_id (heap s ! w)) (Some pl)])"
  using executePlanned_step_fails[OF assms, of wid] by blast

theorem executePlanned_fail_fast_witness:
  "fst (fst (runSteps crashingEnv 0 [analyzeStep] [] (loopEntry 0 threeStepPlan pendingState)))
     = Resolves () \<and>
   fst (attemptStep crashingEnv testStep
          (heap (snd (runSteps crashingEnv 0 [analyzeStep] [] (loopEntry 0 threeStepPlan pendingState))) ! 0)
          (snd (runSteps crashingEnv 0 [analyzeStep] [] (loopEntry 0 threeStepPlan pendingState))))
     = Rejects (Error ''browser crashed'') \<and>
   (\<exists>s' entries.
      executePlanned crashingEnv 0 ''wf-1'' threeStepPlan pendingState =
        (Resolves \<lparr> success = False, workflowId = ''wf-1'', env_result = None,
                    env_error = Some (JStr ''browser crashed'') \<rparr>, s') \<and>
      status (heap s' ! 0) = failed \<and>
      wf_steps (heap s' ! 0) = entries \<and>
      map es_step entries = [analyzeStep] \<and>
      length (calls s') \<le> 2 \<and>
      emitted s' =
        [workflow_started ''wf-1'' (Some threeStepPlan),
         workflow_failed \<lparr> fl_workflowId = ''wf-1'', fl_status = failed,
                           fl_error = JStr ''browser crashed'', fl_completedSteps = 1,
                           fl_totalSteps = 3 \<rparr>]) \<and>
   fst (attemptStep nullRejectEnv testStep
          (heap (snd (runSteps nullRejectEnv 0 [analyzeStep] [] (loopEntry 0 threeStepPlan pendingState))) ! 0)
          (snd (runSteps nullRejectEnv 0 [analyzeStep] [] (loopEntry 0 threeStepPlan pendingState))))
     = Rejects (Thrown JNull) \<and>
   (\<exists>s' entries.
      executePlanned nullRejectEnv 0 ''wf-1'' threeStepPlan pendingState =
        (Resolves \<lparr> success = False, workflowId = ''wf-1'', env_result = None,
                    env_error = Some (JStr ''Cannot read properties of null (reading 'message')'') \<rparr>, s') \<and>
      status (heap s' ! 0) = failed \<and>
      wf_steps (heap s' ! 0) = entries \<and>
      map es_step entries = [analyzeStep] \<and>
      emitted s' = [workflow_started ''wf-1'' (Some threeStepPlan)])"
proof -
  define R where "R = runSteps crashingEnv 0 [analyzeStep] [] (loopEntry 0 threeStepPlan pendingState)"
  define E where "E = attemptStep crashingEnv testStep (heap (snd R) ! 0) (snd R)"
  define R' where "R' = runSteps nullRejectEnv 0 [analyzeStep] [] (loopEntry 0 threeStepPlan pendingState)"
  define E' where "E' = attemptStep nullRejectEnv testStep (heap (snd R') ! 0) (snd R')"
  have h1: "0 < length (heap pendingState)" by (simp add: sample_defs)
  have h2: "plan_steps threeStepPlan = [analyzeStep] @ testStep # [commitStep]"
    by (simp add: sample_defs)
  have r: "fst (fst R) = Resolves ()"
    unfolding R_def by (simp add: loopEntry_def sample_defs executor_defs Let_def)
  have h3: "runSteps crashingEnv 0 [analyzeStep] [] (loopEntry 0 threeStepPlan pendingState)
              = ((Resolves (), snd (fst R)), snd R)"
    using r unfolding R_def by (metis prod.collapse)
  have e: "fst E = Rejects (Error ''browser crashed'')"
    unfolding E_def R_def by (simp add: loopEntry_def sample_defs executor_defs Let_def)
  have h4: "attemptStep crashingEnv testStep (heap (snd R) ! 0) (snd R)
              = (Rejects (Error ''browser crashed''), snd E)"
    using e unfolding E_def by (metis prod.collapse)
  have r': "fst (fst R') = Resolves ()"
    unfolding R'_def by (simp add: loopEntry_def sample_defs executor_defs Let_def)
  have h3': "runSteps nullRejectEnv 0 [analyzeStep] [] (loopEntry 0 threeStepPlan pendingState)
              = ((Resolves (), snd (fst R')), snd R')"
    using r' unfolding R'_def by (metis prod.collapse)
  have e': "fst E' = Rejects (Thrown JNull)"
    unfolding E'_def R'_def by (simp add: loopEntry_def sample_defs executor_defs Let_def)
  have h4': "attemptStep nullRejectEnv testStep (heap (snd R') ! 0) (snd R')
              = (Rejects (Thrown JNull), snd E')"
    using e' unfolding E'_def by (metis prod.collapse)
  have c: "calls pendingState = []" "wf_steps (heap pendingState ! 0) = []"
    "emitted pendingState = []" "wf_id (heap pendingState ! 0) = ''wf-1''"
    by (simp_all add: sample_defs)
  have m: "errorMessage (Error ''browser crashed'') = Inr (JStr ''browser crashed'')" by simp
  have m': "errorMessage (Thrown JNull) =
              Inl (TypeError ''Cannot read properties of null (reading 'message')'')"
    "errorMessage (TypeError ''Cannot read properties of null (reading 'message')'') =
              Inr (JStr ''Cannot read properties of null (reading 'message')'')"
    by (simp_all add: get_prop_def)
  have a: "\<exists>s' entries.
      executePlanned crashingEnv 0 ''wf-1'' threeStepPlan pendingState =
        (Resolves \<lparr> success = False, workflowId = ''wf-1'', env_result = None,
                    env_error = Some (JStr ''browser crashed'') \<rparr>, s') \<and>
      status (heap s' ! 0) = failed \<and>
      wf_steps (heap s' ! 0) = entries \<and>
      map es_step entries = [analyzeStep] \<and>
      length (calls s') \<le> 2 \<and>
      emitted s' =
        [workflow_started ''wf-1'' (Some threeStepPlan),
         workflow_failed \<lparr> fl_workflowId = ''wf-1'', fl_status = failed,
                           fl_error = JStr ''browser crashed'', fl_completedSteps = 1,
                           fl_totalSteps = 3 \<rparr>]"
    using executePlanned_fail_fast[OF h1 h2 h3 h4, of "''wf-1''"] c m by auto
  have b: "\<exists>s' entries.
      executePlanned nullRejectEnv 0 ''wf-1'' threeStepPlan pendingState =
        (Resolves \<lparr> success = False, workflowId = ''wf-1'', env_result = None,
                    env_error = Some (JStr ''Cannot read properties of null (reading 'message')'') \<rparr>, s') \<and>
      status (heap s' ! 0) = failed \<and>
      wf_steps (heap s' ! 0) = entries \<and>
      map es_step entries = [analyzeStep] \<and>
      emitted s' = [workflow_started ''wf-1'' (Some threeStepPlan)]"
    using executePlanned_fail_fast[OF h1 h2 h3' h4', of "''wf-1''"] c m' by auto
  from r e e' a b show ?thesis unfolding R_def E_def R'_def E'_def by blast
qed

text \<open>
  Claim C2 as stated fails. A plan of three steps whose second step throws leaves a step
  log of one entry, the completed first step: there is no failure record for step 2.
\<close>

theorem executePlanned_no_failure_record_counterexample:
  "fst (executePlanned crashingEnv 0 ''wf-1'' threeStepPlan pendingState) =
     Resolves \<lparr> success = False, workflowId = ''wf-1'', env_result = None,
                 env_error = Some (JStr ''browser crashed'') \<rparr> \<and>
   status (heap (snd (executePlanned crashingEnv 0 ''wf-1'' threeStepPlan pendingState)) ! 0) = failed \<and>
   map es_status (wf_steps (heap (snd (executePlanned crashingEnv 0 ''wf-1'' threeStepPlan pendingState)) ! 0))
     = [completed] \<and>
   map es_step (wf_steps (heap (snd (executePlanned crashingEnv 0 ''wf-1'' threeStepPlan pendingState)) ! 0))
     = [analyzeStep]"
  by (simp add: executePlanned_def execute_def failWith_def failWorkflow_def sample_defs
        executor_defs Let_def)

text \<open>
  Claim C5. A step has a positive timeout \<open>t\<close>. The steps before it succeed, the loop
  reaches it (its log line is written, so its id has a string), and its provider call
  settles later than \<open>t\<close> milliseconds, or never. Then \<open>executeStep\<close> rejects with the
  error "Step (id) timed out after (t)ms", where (t) is the text of the number, its
  decimal digits for a safe integer, and the workflow ends failed with that error.
\<close>

theorem executePlanned_step_timeout:
  assumes "w < length (heap s)"
    and "plan_steps pl = pre @ st # post"
    and "runSteps env w pre [] (loopEntry w pl s) = ((Resolves (), rs), s1)"
    and "step_timeout st = JNum t" and "0 < t"
    and "stepLogLine env st = Inr line"
    and "runStepWithIntegration env (step_type st) (step_integration st) (step_parameters st)
           (heap s1 ! w) s1 = (pr, s2)"
    and "slowerThan (nat t) pr"
  shows "\<exists>i. ToString env (step_id st) = Inr i \<and>
           fst (executeStep env st (heap s1 ! w) s1) =
             Rejects (Error (''Step '' @ i @ '' timed out after '' @ numberString env t @ ''ms'')) \<and>
           (\<exists>s'. executePlanned env w wid pl s =
                    (Resolves \<lparr> success = False, workflowId = wid, env_result = None,
                                env_error = Some (JStr (''Step '' @ i @ '' timed out after ''
                                                        @ numberString env t @ ''ms'')) \<rparr>, s') \<and>
                  status (heap s' ! w) = failed \<and>
                  wf_error (heap s' ! w) =
                    Some (JStr (''Step '' @ i @ '' timed out after '' @ numberString env t @ ''ms''))) \<and>
           (t \<le> 9007199254740991 \<longrightarrow> numberString env t = decimal (nat t))"
proof -
  from assms(6) obtain i where i: "ToString env (step_id st) = Inr i"
    by (auto simp: stepLogLine_def split: sum.splits)
  let ?msg = "''Step '' @ i @ '' timed out after '' @ numberString env t @ ''ms''"
  have num: "ToNumber env (step_timeout st) = Inr (Some t)" using assms(4) by simp
  have delay: "timerDelay (Some t) \<le> nat t"
    using assms(5) unfolding timerDelay_def by (simp; arith)
  have msg: "timeoutMessage env st = Inr ?msg"
    using i assms(4) by (simp add: timeoutMessage_def)
  obtain s3 where ex: "executeStep env st (heap s1 ! w) s1 = (Rejects (Error ?msg), s3)"
  proof (cases pr)
    case Pending
    with assms(7) num msg show ?thesis
      by (intro that) (simp add: executeStep_def timerFires_def)
  next
    case (Settles d r)
    with assms(8) delay have "\<not> d \<le> timerDelay (Some t)" by simp
    with Settles assms(7) num msg show ?thesis
      by (intro that) (simp add: executeStep_def timerFires_def)
  next
    case (Rejected e)
    with assms(8) show ?thesis by simp
  qed
  have at: "attemptStep env st (heap s1 ! w) s1 = (Rejects (Error ?msg), s3)"
    using ex assms(6) by (simp add: attemptStep_def)
  have nm: "t \<le> 9007199254740991 \<longrightarrow> numberString env t = decimal (nat t)"
    using assms(5) by (simp add: numberString_def)
  from executePlanned_step_fails[OF assms(1,2,3) at, of wid] i ex nm show ?thesis by auto
qed

theorem executePlanned_step_timeout_witness:
  "fst (fst (runSteps slowEnv 0 [analyzeStep] [] (loopEntry 0 threeStepPlan pendingState)))
     = Resolves () \<and>
   step_timeout testStep = JNum 180000 \<and>
   stepLogLine slowEnv testStep = Inr ''Executing step s2: undefined'' \<and>
   slowerThan 180000
     (fst (runStepWithIntegration slowEnv (step_type testStep) (step_integration testStep)
             (step_parameters testStep)
             (heap (snd (runSteps slowEnv 0 [analyzeStep] [] (loopEntry 0 threeStepPlan pendingState))) ! 0)
             (snd (runSteps slowEnv 0 [analyzeStep] [] (loopEntry 0 threeStepPlan pendingState))))) \<and>
   (\<exists>s'. executePlanned slowEnv 0 ''wf-1'' threeStepPlan pendingState =
            (Resolves \<lparr> success = False, workflowId = ''wf-1'', env_result = None,
                        env_error = Some (JStr ''Step s2 timed out after 180000ms'') \<rparr>, s') \<and>
          status (heap s' ! 0) = failed)"
proof -
  define R where "R = runSteps slowEnv 0 [analyzeStep] [] (loopEntry 0 threeStepPlan pendingState)"
  define P where "P = runStepWithIntegration slowEnv (step_type testStep) (step_integration testStep)
                        (step_parameters testStep) (heap (snd R) ! 0) (snd R)"
  have h1: "0 < length (heap pendingState)" by (simp add: sample_defs)
  have h2: "plan_steps threeStepPlan = [analyzeStep] @ testStep # [commitStep]"
    by (simp add: sample_defs)
  have r: "fst (fst R) = Resolves ()"
    unfolding R_def by (simp add: loopEntry_def sample_defs executor_defs Let_def)
  have h3: "runSteps slowEnv 0 [analyzeStep] [] (loopEntry 0 threeStepPlan pendingState)
              = ((Resolves (), snd (fst R)), snd R)"
    using r unfolding R_def by (metis prod.collapse)
  have h4: "step_timeout testStep = JNum 180000" by (simp add: sample_defs)
  have h5: "(0::int) < 180000" by simp
  have h6: "stepLogLine slowEnv testStep = Inr ''Executing step s2: undefined''"
    by (simp add: stepLogLine_def sample_defs)
  have h7: "runStepWithIntegration slowEnv (step_type testStep) (step_integration testStep)
              (step_parameters testStep) (heap (snd R) ! 0) (snd R) = (fst P, snd P)"
    unfolding P_def by simp
  have p: "slowerThan 180000 (fst P)"
    unfolding P_def R_def by (simp add: loopEntry_def sample_defs executor_defs Let_def)
  then have h8: "slowerThan (nat 180000) (fst P)" by simp
  have d: "numberString slowEnv 180000 = ''180000''" by (simp add: numberString_def decimal.simps)
  have i: "ToString slowEnv (step_id testStep) = Inr ''s2''" by (simp add: sample_defs)
  from executePlanned_step_timeout[OF h1 h2 h3 h4 h5 h6 h7 h8, of "''wf-1''"] r h4 h6 p d i
  show ?thesis unfolding R_def P_def by auto
qed

text \<open>
  Claim C4 at a failing input. The plan has one step, generate_code on the GitHub
  provider, whose parameters carry \<open>files\<close> as an object. The provider resolves, the step
  is logged as completed, and \<open>generateSummary\<close> throws on spreading \<open>files\<close>: the
  workflow ends failed.
\<close>

theorem executePlanned_summary_throws:
  "fst (executePlanned githubEnv 0 ''wf-1'' filesObjectPlan pendingState) =
     Resolves \<lparr> success = False, workflowId = ''wf-1'', env_result = None,
                 env_error = Some (JStr ''Spread syntax requires ...iterable[Symbol.iterator] to be a function'') \<rparr> \<and>
   status (heap (snd (executePlanned githubEnv 0 ''wf-1'' filesObjectPlan pendingState)) ! 0) = failed \<and>
   map es_status (wf_steps (heap (snd (executePlanned githubEnv 0 ''wf-1'' filesObjectPlan pendingState)) ! 0))
     = [completed] \<and>
   length (plan_steps filesObjectPlan) = 1"
  by (simp add: executePlanned_def execute_def failWith_def failWorkflow_def sample_defs
        executor_defs generateSummary_def summarize_def Let_def)

text \<open>
  When every step succeeds and \<open>generateSummary\<close> does not throw, the result lists one
  step result for each step of the plan and the workflow ends completed.
\<close>

lemma executePlanned_all_succeed:
  assumes w: "w < length (heap s)"
    and run: "runSteps env w (plan_steps pl) [] (loopEntry w pl s) = ((Resolves (), rs), s1)"
    and sm: "generateSummary rs = Inr sm"
  shows "\<exists>s' res. executePlanned env w wid pl s =
            (Resolves \<lparr> success = True, workflowId = wid, env_result = Some res, env_error = None \<rparr>, s') \<and>
          length (fr_steps res) = length (plan_steps pl) \<and>
          status (heap s' ! w) = completed \<and>
          length (wf_steps (heap s' ! w)) = length (wf_steps (heap s ! w)) + length (plan_steps pl)"
proof -
  have w0: "w < length (heap (loopEntry w pl s))"
    using w by (simp add: loopEntry_def modify_def Let_def)
  from runSteps_log[OF run w0] obtain entries where
    lg: "heap s1 = (heap (loopEntry w pl s))[w := (heap (loopEntry w pl s) ! w)
            \<lparr> wf_steps := wf_steps (heap (loopEntry w pl s) ! w) @ entries \<rparr>]"
        "rs = [] @ map es_result entries"
        "length entries = length (plan_steps pl)"
    by blast
  have le: "heap (loopEntry w pl s) = (heap s)[w := (heap s ! w)\<lparr> wf_plan := Some pl, status := running \<rparr>]"
    using w by (simp add: loopEntry_def modify_def Let_def)
  have lr: "length rs = length (plan_steps pl)" using lg(2,3) by simp
  show ?thesis
    using w lg(1,3) le lr
    by (simp add: executePlanned_unfold[OF w] run sm modify_def Let_def)
qed

section \<open>The engine: envelopes, cancellation, metrics\<close>




lemma executeWorkflow_unfold:
  assumes "isInitialized s" and "ToString env instr = Inr t"
  shows "executeWorkflow env instr opts s =
      (case planning env instr opts s of
         (NeverSettles, s2) \<Rightarrow> (NeverSettles, s2)
       | (Rejects e, s2) \<Rightarrow> failWorkflow (length (heap s)) (uuidv4 env (uuids s)) e s2
       | (Resolves pl, s2) \<Rightarrow> executePlanned env (length (heap s)) (uuidv4 env (uuids s)) pl s2)"
  using assms unfolding planning_def registered_def givenOptions_def
  by (simp add: executeWorkflow_def Let_def)




text \<open>
  On an initialized engine too the call can reject: for an instruction that has no
  string, at the log line before the \<open>try\<close> block, with the workflow left pending in the
  registry.
\<close>

lemma executeWorkflow_no_string_rejects:
  "fst (executeWorkflow stubEnv noStringInstruction (JObj []) (initialize newEngine)) =
     Rejects (TypeError ''Cannot convert object to primitive value'') \<and>
   activeWorkflows (snd (executeWorkflow stubEnv noStringInstruction (JObj []) (initialize newEngine)))
     = [(''uuid-0'', 0)] \<and>
   status (heap (snd (executeWorkflow stubEnv noStringInstruction (JObj []) (initialize newEngine))) ! 0)
     = pending"
  by (simp add: executeWorkflow_def sample_defs decimal.simps Let_def)

text \<open>
  Claim C8, as the code has it. \<open>cancelWorkflow\<close> on an id that is not in the registry
  throws the not-found error. On an id in the registry it returns the workflow and
  removes it from the registry; the status becomes cancelled when it was running, and
  stays what it was otherwise.
\<close>

theorem cancelWorkflow_cases:
  "(map_of (activeWorkflows s) wid = None \<longrightarrow>
      cancelWorkflow wid s = (Inl (Error (''Workflow '' @ wid @ '' not found'')), s)) \<and>
   (\<forall>w. map_of (activeWorkflows s) wid = Some w \<and> w < length (heap s) \<longrightarrow>
      (\<exists>s'. cancelWorkflow wid s = (Inr w, s') \<and>
            map_of (activeWorkflows s') wid = None \<and>
            (status (heap s ! w) = running \<longrightarrow> status (heap s' ! w) = cancelled) \<and>
            (status (heap s ! w) \<noteq> running \<longrightarrow> heap s' = heap s)))"
proof (intro conjI allI impI)
  assume "map_of (activeWorkflows s) wid = None"
  then show "cancelWorkflow wid s = (Inl (Error (''Workflow '' @ wid @ '' not found'')), s)"
    by (simp add: cancelWorkflow_def notFound_def)
next
  fix w
  assume a: "map_of (activeWorkflows s) wid = Some w \<and> w < length (heap s)"
  have len: "length (heap (cancel wid s)) = length (heap s)"
    by (simp add: cancel_def modify_def split: option.splits)
  have act: "activeWorkflows (cancel wid s) = activeWorkflows s"
    by (simp add: cancel_def modify_def split: option.splits)
  have del: "map_of (AList.delete wid (activeWorkflows s)) wid = None"
    by (simp add: AList.delete_eq map_of_eq_None_iff image_iff)
  show "\<exists>s'. cancelWorkflow wid s = (Inr w, s') \<and>
            map_of (activeWorkflows s') wid = None \<and>
            (status (heap s ! w) = running \<longrightarrow> status (heap s' ! w) = cancelled) \<and>
            (status (heap s ! w) \<noteq> running \<longrightarrow> heap s' = heap s)"
    using a len act del
    by (cases "status (heap s ! w) = running") (simp_all add: cancelWorkflow_def Let_def modify_def)
qed

theorem cancelWorkflow_cases_witness:
  "map_of (activeWorkflows runningState) ''wf-1'' = Some 0 \<and>
   status (heap runningState ! 0) = running \<and>
   fst (cancelWorkflow ''wf-1'' runningState) = Inr 0 \<and>
   status (heap (snd (cancelWorkflow ''wf-1'' runningState)) ! 0) = cancelled \<and>
   map_of (activeWorkflows (snd (cancelWorkflow ''wf-1'' runningState))) ''wf-1'' = None \<and>
   map_of (activeWorkflows runningState) ''wf-2'' = None \<and>
   cancelWorkflow ''wf-2'' runningState = (Inl (Error ''Workflow wf-2 not found''), runningState)"
proof -
  have h: "map_of (activeWorkflows runningState) ''wf-1'' = Some 0 \<and> 0 < length (heap runningState)"
    by (simp add: runningState_def sample_defs)
  have r: "status (heap runningState ! 0) = running"
    by (simp add: runningState_def sample_defs)
  have n: "map_of (activeWorkflows runningState) ''wf-2'' = None"
    by (simp add: runningState_def sample_defs)
  from cancelWorkflow_cases[of runningState "''wf-1''"] h r
  obtain s' where "cancelWorkflow ''wf-1'' runningState = (Inr 0, s')"
    "map_of (activeWorkflows s') ''wf-1'' = None" "status (heap s' ! 0) = cancelled"
    by blast
  with cancelWorkflow_cases[of runningState "''wf-2''"] h r n show ?thesis by simp
qed

text \<open>
  Claim C8 as stated fails: a pending workflow that is cancelled leaves the registry with
  its status still pending.
\<close>

theorem cancelWorkflow_pending_counterexample:
  "status (heap pendingState ! 0) = pending \<and>
   fst (cancelWorkflow ''wf-1'' pendingState) = Inr 0 \<and>
   status (heap (snd (cancelWorkflow ''wf-1'' pendingState)) ! 0) = pending \<and>
   activeWorkflows (snd (cancelWorkflow ''wf-1'' pendingState)) = []"
  by (simp add: cancelWorkflow_def sample_defs Let_def)

text \<open>No path of \<open>executeWorkflow\<close> reaches \<open>updateMetrics\<close>: the counters stay as they were.\<close>

lemma runSteps_metrics: "metrics (snd (runSteps env w sts rs s)) = metrics s"
proof (induction sts arbitrary: rs s)
  case Nil
  then show ?case by simp
next
  case (Cons st sts)
  obtain r1 s1 where e1: "attemptStep env st (heap s ! w) s = (r1, s1)"
    by (cases "attemptStep env st (heap s ! w) s")
  from attemptStep_frame[OF e1] have m: "metrics s1 = metrics s" by simp
  show ?case
    using e1 m by (cases r1) (simp_all add: Cons.IH modify_def)
qed

lemma failWith_metrics: "metrics (snd (failWith wid e rs n s)) = metrics s"
  by (cases "errorMessage e") (simp_all add: failWith_def Let_def)

lemma execute_metrics: "metrics (snd (execute env w s)) = metrics s"
proof -
  define s2 where "s2 = emit (workflow_started (wf_id (heap s ! w)) (wf_plan (heap s ! w)))
     (s\<lparr> runningWorkflows := AList.update (wf_id (heap s ! w)) w (runningWorkflows s) \<rparr>)"
  have m2: "metrics s2 = metrics s" by (simp add: s2_def)
  show ?thesis
  proof (cases "wf_plan (heap s ! w)")
    case None
    then show ?thesis using m2 by (simp add: execute_def Let_def s2_def)
  next
    case (Some pl)
    obtain r rs s3 where run: "runSteps env w (plan_steps pl) [] s2 = ((r, rs), s3)"
      by (metis surj_pair)
    from runSteps_metrics[of env w "plan_steps pl" "[]" s2] run m2 have m3: "metrics s3 = metrics s"
      by simp
    from Some run m3 show ?thesis
      unfolding s2_def
      by (cases r; cases "generateSummary rs")
         (simp_all add: execute_def Let_def failWith_metrics)
  qed
qed

lemma failWorkflow_metrics: "metrics (snd (failWorkflow w wid e s)) = metrics s"
  by (cases "errorMessage e") (simp_all add: failWorkflow_def Let_def modify_def)

lemma executePlanned_metrics: "metrics (snd (executePlanned env w wid pl s)) = metrics s"
proof -
  let ?st = "modify w (\<lambda>workflow. workflow\<lparr> wf_plan := Some pl, status := running \<rparr>) s"
  obtain r s3 where e: "execute env w ?st = (r, s3)" by (cases "execute env w ?st")
  from execute_metrics[of env w ?st] e have "metrics s3 = metrics s" by (simp add: modify_def)
  with e show ?thesis
    by (cases r) (simp_all add: executePlanned_def failWorkflow_metrics modify_def)
qed

lemma createWorkflowPlan_metrics:
  "metrics (snd (createWorkflowPlan env instr opts s)) = metrics s"
  by (auto simp: createWorkflowPlan_def invoke_def
           split: option.splits promise.splits sum.splits prod.splits)

lemma executeWorkflow_metrics: "metrics (snd (executeWorkflow env instr opts s)) = metrics s"
proof (cases "isInitialized s")
  case False
  then show ?thesis by (simp add: executeWorkflow_def)
next
  case True
  show ?thesis
  proof (cases "ToString env instr")
    case (Inl e)
    with True show ?thesis by (simp add: executeWorkflow_def Let_def)
  next
    case (Inr t)
    obtain o1 s2 where p: "planning env instr opts s = (o1, s2)"
      by (cases "planning env instr opts s")
    from createWorkflowPlan_metrics[of env instr "givenOptions opts" "registered env instr (givenOptions opts) s"] p
    have m2: "metrics s2 = metrics s" by (simp add: planning_def registered_def)
    show ?thesis
      using m2
      by (cases o1)
         (simp_all add: executeWorkflow_unfold[OF True Inr] p failWorkflow_metrics executePlanned_metrics)
  qed
qed

text \<open>
  Claim C1 at a failing input. The planning provider answers with text that is not JSON,
  the four steps of the fallback plan run against providers that succeed, and
  \<open>executeWorkflow\<close> resolves with success: the workflow is completed and out of the
  registry, and the counters of the state manager are still zero.
\<close>

theorem executeWorkflow_metrics_stay_zero:
  "(case fst (executeWorkflow stubEnv (JStr ''add a health endpoint'') (JObj []) (initialize newEngine)) of
      Resolves ev \<Rightarrow> success ev \<and> workflowId ev = ''uuid-0''
    | Rejects e \<Rightarrow> False
    | NeverSettles \<Rightarrow> False) \<and>
   status (heap (snd (executeWorkflow stubEnv (JStr ''add a health endpoint'') (JObj [])
                        (initialize newEngine))) ! 0) = completed \<and>
   length (wf_steps (heap (snd (executeWorkflow stubEnv (JStr ''add a health endpoint'') (JObj [])
                                  (initialize newEngine))) ! 0)) = 4 \<and>
   activeWorkflows (snd (executeWorkflow stubEnv (JStr ''add a health endpoint'') (JObj [])
                           (initialize newEngine))) = [] \<and>
   completedWorkflows (StateManager_getMetrics (initialize newEngine)) = 0 \<and>
   completedWorkflows (StateManager_getMetrics
      (snd (executeWorkflow stubEnv (JStr ''add a health endpoint'') (JObj []) (initialize newEngine)))) = 0 \<and>
   totalWorkflows (StateManager_getMetrics
      (snd (executeWorkflow stubEnv (JStr ''add a health endpoint'') (JObj []) (initialize newEngine)))) = 0"
  by (simp add: executeWorkflow_def createWorkflowPlan_def planPrompt_def parseAnswer_def
        parseWorkflowPlan_def createFallbackPlan_def fallbackStep_def executePlanned_def
        execute_def generateSummary_def summarize_def StateManager_getMetrics_def
        sample_defs executor_defs decimal.simps Let_def)

section \<open>The task queue: the bound on active jobs\<close>

lemma length_setAdd: "length (setAdd x xs) \<le> Suc (length xs)"
  by (simp add: setAdd_def)

lemma length_setDelete: "length (setDelete x xs) \<le> length xs"
  by (simp add: setDelete_def removeAll_filter_not_eq)

lemma taskSettled_frame:
  "activeJobs (taskSettled env tk now q) = activeJobs q \<and>
   inflight (taskSettled env tk now q) = inflight q \<and>
   queue (taskSettled env tk now q) = queue q \<and>
   processing (taskSettled env tk now q) = processing q \<and>
   maxConcurrent (taskSettled env tk now q) = maxConcurrent q"
  by (simp add: taskSettled_def split: sum.splits)

lemma act_maxConcurrent: "maxConcurrent (act env a q) = maxConcurrent q"
  by (cases a)
     (auto simp: addTask_def loopBody_def processTask_start_def processTask_finish_def Let_def
           taskSettled_frame split: list.splits)

lemma act_bounded:
  assumes "length (activeJobs q) \<le> maxConcurrent q"
  shows "length (activeJobs (act env a q)) \<le> maxConcurrent q"
proof (cases a)
  case (AddTask raw now)
  with assms show ?thesis by (simp add: addTask_def Let_def)
next
  case StartProcessing
  with assms show ?thesis by simp
next
  case Stop
  with assms show ?thesis by simp
next
  case (Pass now)
  show ?thesis
  proof (cases "processing q \<and> queue q \<noteq> [] \<and> length (activeJobs q) < maxConcurrent q")
    case True
    then obtain tk rest where q: "queue q = tk # rest" by (cases "queue q") auto
    from length_setAdd[of "task_id tk" "activeJobs q"] True
    have "length (setAdd (task_id tk) (activeJobs q)) \<le> maxConcurrent q" by simp
    with True q Pass show ?thesis
      by (simp add: loopBody_def processTask_start_def Let_def)
  next
    case False
    with assms Pass show ?thesis
      by (auto simp: loopBody_def split: list.splits)
  qed
next
  case (Settle i now)
  from length_setDelete[of "task_id (inflight q ! i)" "activeJobs q"] assms Settle
  show ?thesis by (simp add: processTask_finish_def Let_def taskSettled_frame)
qed

lemma runQueue_bounded:
  "length (activeJobs q) \<le> maxConcurrent q \<Longrightarrow>
     length (activeJobs (runQueue env acts q)) \<le> maxConcurrent q \<and>
     maxConcurrent (runQueue env acts q) = maxConcurrent q"
proof (induction acts arbitrary: q)
  case Nil
  then show ?case by simp
next
  case (Cons a acts)
  from act_bounded[OF Cons.prems, of env a] act_maxConcurrent[of env a q]
  have "length (activeJobs (act env a q)) \<le> maxConcurrent (act env a q)" by simp
  from Cons.IH[OF this] act_maxConcurrent[of env a q] show ?case by simp
qed

lemma act_starts:
  assumes "length (inflight q) < length (inflight (act env a q))"
  shows "length (activeJobs q) < maxConcurrent q"
proof (cases a)
  case (Pass now)
  with assms show ?thesis
    by (auto simp: loopBody_def processTask_start_def Let_def split: list.splits if_splits)
next
  case (Settle i now)
  with assms show ?thesis
    by (auto simp: processTask_finish_def Let_def taskSettled_frame split: if_splits)
qed (use assms in \<open>auto simp: addTask_def Let_def split: if_splits\<close>)

text \<open>
  Claim C7. Whatever is done to a new queue, in whatever order - tasks added, the loop
  started or stopped, passes of the loop, tasks settling - the number of active jobs the
  queue reports never exceeds \<open>maxConcurrent\<close>, which stays 3; and whenever one more step
  puts a task in flight, the number of active jobs was below \<open>maxConcurrent\<close> before it.
\<close>

theorem queue_active_bounded:
  "maxConcurrent (runQueue env acts TaskQueue_new) = 3 \<and>
   active (getQueueStatus (runQueue env acts TaskQueue_new)) \<le> 3 \<and>
   (length (inflight (runQueue env acts TaskQueue_new))
      < length (inflight (act env a (runQueue env acts TaskQueue_new))) \<longrightarrow>
    active (getQueueStatus (runQueue env acts TaskQueue_new))
      < maxConcurrent (runQueue env acts TaskQueue_new))"
proof -
  have "length (activeJobs TaskQueue_new) \<le> maxConcurrent TaskQueue_new"
    by (simp add: TaskQueue_new_def)
  from runQueue_bounded[OF this, of env acts] act_starts[of "runQueue env acts TaskQueue_new" env a]
  show ?thesis by (simp add: getQueueStatus_def TaskQueue_new_def)
qed

lemmas queue_defs =
  TaskQueue_new_def addTask_def loopBody_def processTask_start_def processTask_finish_def
  taskSettled_def executeTask_def setAdd_def setDelete_def getQueueStatus_def rawTask_def burst_def js_or_def

theorem queue_active_bounded_witness:
  "active (getQueueStatus (runQueue stubEnv burst TaskQueue_new)) = 3 \<and>
   queued (getQueueStatus (runQueue stubEnv burst TaskQueue_new)) = 1 \<and>
   length (inflight (runQueue stubEnv (take 2 burst) TaskQueue_new))
     < length (inflight (act stubEnv (Pass 100) (runQueue stubEnv (take 2 burst) TaskQueue_new))) \<and>
   active (getQueueStatus (runQueue stubEnv (take 2 burst) TaskQueue_new))
     < maxConcurrent (runQueue stubEnv (take 2 burst) TaskQueue_new)"
proof -
  have b: "active (getQueueStatus (runQueue stubEnv burst TaskQueue_new)) = 3 \<and>
           queued (getQueueStatus (runQueue stubEnv burst TaskQueue_new)) = 1"
    by (simp add: queue_defs Let_def)
  have g: "length (inflight (runQueue stubEnv (take 2 burst) TaskQueue_new))
     < length (inflight (act stubEnv (Pass 100) (runQueue stubEnv (take 2 burst) TaskQueue_new)))"
    by (simp add: queue_defs Let_def)
  from queue_active_bounded[of stubEnv "take 2 burst" "Pass 100"] g b show ?thesis by simp
qed

end
